theory Spec2Isabelle
  imports Main "HOL-Library.AList" "HOL-Library.Word"
begin

section \<open>The protocol module of atom/browser/api/atom_api_protocol.cc\<close>

text \<open>
  The file holds three classes: \<open>CustomProtocolRequestJob\<close> (the adapter job that asks the
  JavaScript handler what to do with a request), \<open>CustomProtocolHandler\<close> (the object the
  job factory keeps per scheme) and \<open>Protocol\<close> (the registry behind the JavaScript
  \<open>protocol\<close> object). They run on two threads that talk through posted tasks only, so the
  model is a record of both threads' state with one task queue per thread.
\<close>

subsection \<open>JavaScript values\<close>

text \<open>
  What the code asks of a \<open>v8::Value\<close>: \<open>IsString\<close>, \<open>IsObject\<close>, the constructor name
  of an object, its properties (read through \<open>mate::Dictionary::Get\<close>) and the bytes of a
  node Buffer. A Buffer is an object whose constructor is not one of the job kinds.
\<close>

datatype v8_value =
    V8String string
  | V8Number int
  | V8Undefined
  | V8Buffer "8 word list"
  | V8Object string "(string \<times> v8_value) list"

fun IsString :: "v8_value \<Rightarrow> bool" where
  "IsString (V8String _) = True"
| "IsString _ = False"

fun IsObject :: "v8_value \<Rightarrow> bool" where
  "IsObject (V8Object _ _) = True"
| "IsObject (V8Buffer _) = True"
| "IsObject _ = False"

fun V8ToString :: "v8_value \<Rightarrow> string" where
  "V8ToString (V8String s) = s"
| "V8ToString _ = []"

fun GetConstructorName :: "v8_value \<Rightarrow> string" where
  "GetConstructorName (V8Object name _) = name"
| "GetConstructorName (V8Buffer _) = ''Buffer''"
| "GetConstructorName _ = []"

fun properties :: "v8_value \<Rightarrow> (string \<times> v8_value) list" where
  "properties (V8Object _ props) = props"
| "properties _ = []"

text \<open>
  \<open>dict.Get(key, &out)\<close> converts the property to the type of \<open>out\<close> and stores it; when
  the property is missing or of another type, \<open>out\<close> keeps the value it was initialised
  with. The third argument is that initial value. A \<open>GURL\<close> and a \<open>base::FilePath\<close> are
  converted from a string and are kept as the string here. A number converts to an \<open>int\<close>
  only when it is an Int32.
\<close>

definition Get_string :: "(string \<times> v8_value) list \<Rightarrow> string \<Rightarrow> string \<Rightarrow> string" where
  "Get_string dict key out = (case map_of dict key of Some (V8String s) \<Rightarrow> s | _ \<Rightarrow> out)"

definition Get_int :: "(string \<times> v8_value) list \<Rightarrow> string \<Rightarrow> int \<Rightarrow> int" where
  "Get_int dict key out =
     (case map_of dict key of
        Some (V8Number i) \<Rightarrow> if - 2147483648 \<le> i \<and> i \<le> 2147483647 then i else out
      | _ \<Rightarrow> out)"

definition Get_value :: "(string \<times> v8_value) list \<Rightarrow> string \<Rightarrow> v8_value" where
  "Get_value dict key = (case map_of dict key of Some v \<Rightarrow> v | None \<Rightarrow> V8Undefined)"

subsection \<open>Requests and the converter to JavaScript\<close>

record url_request =
  request_method :: string
  url_scheme :: string
  url_spec :: string
  referrer :: string

text \<open>\<open>Converter<const net::URLRequest*>::ToV8\<close>: a plain object with three properties.\<close>

definition ToV8 :: "url_request \<Rightarrow> v8_value" where
  "ToV8 val = V8Object ''Object''
     [(''method'', V8String (request_method val)),
      (''url'', V8String (url_spec val)),
      (''referrer'', V8String (referrer val))]"

subsection \<open>Ways a thread can die\<close>

text \<open>
  \<open>NOTREACHED()\<close> is \<open>DCHECK(false)\<close>: in a build with assertions on it ends the process,
  in a build without them it does nothing. The other constructors are
  the undefined behaviours the code can run into: a member call through a null pointer, a
  \<open>static_cast\<close> to \<open>CustomProtocolHandler\<close> of a handler of another class, a pointer to an
  object that no longer exists, \<open>Run\<close> on a null callback, and \<open>node::Buffer::Data\<close> on a
  value that is not a Buffer.
\<close>

datatype crash =
    NotReached
  | NullDereference
  | BadCast
  | DanglingPointer
  | NullCallbackRun
  | NotABuffer

subsection \<open>BufferToRefCountedBytes\<close>

fun BufferToRefCountedBytes :: "v8_value \<Rightarrow> crash + 8 word list" where
  "BufferToRefCountedBytes (V8Buffer bytes) = Inr bytes"
| "BufferToRefCountedBytes _ = Inl NotABuffer"

subsection \<open>The tasks an adapter job posts to the I/O thread\<close>

text \<open>
  One constructor per \<open>AdapterRequestJob\<close> method bound in \<open>GetJobTypeInUI\<close>, with the bound
  arguments. The browser context of \<open>CreateHttpJobAndStart\<close> is the registry's own and is
  left out.
\<close>

datatype adapter_task =
    CreateStringJobAndStart string string string
  | CreateBufferJobAndStart string string "8 word list"
  | CreateFileJobAndStart string
  | CreateErrorJobAndStart int
  | CreateHttpJobAndStart string string string
  | CreateJobFromProtocolHandlerAndStart

text \<open>\<open>net::ERR_NOT_IMPLEMENTED\<close> of net/base/net_error_list.h.\<close>

definition ERR_NOT_IMPLEMENTED :: int where
  "ERR_NOT_IMPLEMENTED = - 11"

subsection \<open>Handlers\<close>

text \<open>
  A \<open>JsProtocolHandler\<close> is a \<open>base::Callback\<close> around a JavaScript function from the
  request object to a decision value; a default-constructed callback is null.
  A \<open>JsCompletionCallback\<close> is named by a number, and the value it is run with is either
  \<open>v8::Null\<close> or an \<open>Error\<close> with a message.
\<close>

datatype js_protocol_handler = NullCallback | JsFunction "v8_value \<Rightarrow> v8_value"

datatype completion = V8Null | V8Error string

text \<open>
  Handler objects live in a store from addresses to objects, since the factory, the
  wrapping handler and the running jobs all hold plain pointers to them. A
  \<open>CustomProtocolHandler\<close> has one field that matters, the \<open>scoped_ptr\<close>
  \<open>protocol_handler_\<close> (\<open>None\<close> is the null pointer). A \<open>DefaultHandler\<close> is any handler of
  another class, installed by the browser itself, named by a number.
\<close>

datatype protocol_handler =
    DefaultHandler nat
  | CustomProtocolHandler "nat option"

type_synonym handler_heap = "(nat \<times> protocol_handler) list"

text \<open>\<open>new\<close> returns an address that no live object has.\<close>

fun fresh_address :: "handler_heap \<Rightarrow> nat" where
  "fresh_address [] = 0"
| "fresh_address ((a, _) # h) = max (Suc a) (fresh_address h)"

lemma delete_shorter:
  "map_of h a = Some obj \<Longrightarrow> length (AList.delete a h) < length h"
  by (induction h) (auto simp: less_Suc_eq_le AList.length_delete_le split: if_splits)

text \<open>
  \<open>delete p\<close>: the destructor of a \<open>CustomProtocolHandler\<close> destroys its \<open>scoped_ptr\<close>,
  which deletes the handler it owns; then the object is gone. Deleting an address with no
  object leaves the store as it is.
\<close>

function delete_handler :: "handler_heap \<Rightarrow> nat \<Rightarrow> handler_heap" where
  "delete_handler h a =
     (case map_of h a of
        None \<Rightarrow> h
      | Some (DefaultHandler _) \<Rightarrow> AList.delete a h
      | Some (CustomProtocolHandler None) \<Rightarrow> AList.delete a h
      | Some (CustomProtocolHandler (Some b)) \<Rightarrow> delete_handler (AList.delete a h) b)"
  by pat_completeness auto
termination
  by (relation "measure (\<lambda>(h, a). length h)") (auto simp: delete_shorter)

declare delete_handler.simps [simp del]

text \<open>The adapter job: the default handler it was given and the request it stands for.\<close>

record custom_protocol_request_job =
  default_protocol_handler :: "nat option"
  request :: url_request

text \<open>
  \<open>CustomProtocolHandler::MaybeCreateJob\<close>: always a new adapter job, given
  \<open>protocol_handler_.get()\<close> and the request.
\<close>

definition MaybeCreateJob :: "nat option \<Rightarrow> url_request \<Rightarrow> custom_protocol_request_job" where
  "MaybeCreateJob protocol_handler_field req =
     \<lparr>default_protocol_handler = protocol_handler_field, request = req\<rparr>"

subsection \<open>The job factory\<close>

text \<open>
  \<open>AtomURLRequestJobFactory\<close> is declared in atom/browser/net/atom_url_request_job_factory.h
  and is not part of this file; the five methods the registry calls are modelled from the
  interface description: a table from schemes to handler pointers, plus the schemes the
  network stack serves on its own.
\<close>

record job_factory =
  protocol_handler_map :: "string \<rightharpoonup> nat"
  network_schemes :: "string list"

text \<open>Modelled from the spec: \<open>GetHandler(scheme) \<rightarrow> handler-or-null\<close>.\<close>

definition factory_GetProtocolHandler :: "job_factory \<Rightarrow> string \<Rightarrow> nat option" where
  "factory_GetProtocolHandler f scheme = protocol_handler_map f scheme"

text \<open>Modelled from the spec: whether the factory has an existing handler for the scheme.\<close>

definition factory_HasProtocolHandler :: "job_factory \<Rightarrow> string \<Rightarrow> bool" where
  "factory_HasProtocolHandler f scheme = (protocol_handler_map f scheme \<noteq> None)"

text \<open>
  Modelled from the spec: \<open>IsHandledScheme(scheme) \<rightarrow> bool\<close>, whether any handler, built-in
  or custom, currently serves the scheme.
\<close>

definition factory_IsHandledProtocol :: "job_factory \<Rightarrow> string \<Rightarrow> bool" where
  "factory_IsHandledProtocol f scheme =
     (factory_HasProtocolHandler f scheme \<or> scheme \<in> set (network_schemes f))"

text \<open>
  Modelled from the spec: \<open>SetHandler(scheme, handler-or-null)\<close>. A handler lives exactly as
  long as its entry, so the handler an entry held is destroyed when the entry is cleared
  or overwritten.
\<close>

definition factory_SetProtocolHandler ::
  "string \<Rightarrow> nat option \<Rightarrow> job_factory \<times> handler_heap \<Rightarrow> job_factory \<times> handler_heap" where
  "factory_SetProtocolHandler scheme handler fh =
     (let f = fst fh;
          h = (case protocol_handler_map f scheme of
                 None \<Rightarrow> snd fh
               | Some old \<Rightarrow> delete_handler (snd fh) old)
      in (f\<lparr>protocol_handler_map := (protocol_handler_map f)(scheme := handler)\<rparr>, h))"

text \<open>
  Modelled from the spec: \<open>ReplaceHandler(scheme, handler) \<rightarrow> previous-handler\<close>. The previous
  handler is handed to the caller, not destroyed.
\<close>

definition factory_ReplaceProtocol ::
  "string \<Rightarrow> nat option \<Rightarrow> job_factory \<Rightarrow> nat option \<times> job_factory" where
  "factory_ReplaceProtocol scheme handler f =
     (protocol_handler_map f scheme,
      f\<lparr>protocol_handler_map := (protocol_handler_map f)(scheme := handler)\<rparr>)"

subsection \<open>Posted tasks\<close>

text \<open>
  Every \<open>base::Bind\<close> of the file is a constructor holding the bound arguments. An I/O
  task is what \<open>PostTaskAndReply\<close> and \<open>PostTaskAndReplyWithResult\<close> are given: the function
  to run on the I/O thread and the reply to run on the UI thread afterwards; the reply of
  the second form still waits for the result of the task.
\<close>

datatype io_function =
    Bind_RegisterProtocolInIO string
  | Bind_UnregisterProtocolInIO string
  | Bind_InterceptProtocolInIO string
  | Bind_UninterceptProtocolInIO string

datatype io_query =
    Bind_IsHandledProtocol string
  | Bind_HasProtocolHandler string

datatype ui_reply =
    Bind_OnRegisterProtocol string js_protocol_handler nat
  | Bind_OnInterceptProtocol string js_protocol_handler nat

datatype ui_task =
    Run_callback nat completion
  | Run_OnRegisterProtocol string js_protocol_handler nat int
  | Run_OnInterceptProtocol string js_protocol_handler nat int

datatype io_task =
    TaskAndReply io_function ui_task
  | TaskAndReplyWithResult io_query ui_reply

text \<open>
  What has been observed so far: completion callbacks run, I/O functions finished, and
  each \<open>NOTREACHED()\<close> that control passed over in a build without assertions.
\<close>

datatype event =
    CallbackRun nat completion
  | IOFunctionRan io_function
  | NotReachedPassed

subsection \<open>The state of both threads\<close>

text \<open>
  \<open>protocol_handlers\<close> is \<open>Protocol::protocol_handlers_\<close> (touched on the UI thread only);
  \<open>job_factory\<close> and \<open>heap\<close> are the factory and the handler objects (touched on the I/O
  thread only); the queues are the two message loops; \<open>trace\<close> records the events in the
  order they happened; \<open>dcheck_is_on\<close> says whether the build has assertions on.
\<close>

record world =
  protocol_handlers :: "string \<rightharpoonup> js_protocol_handler"
  job_factory :: job_factory
  heap :: handler_heap
  io_queue :: "io_task list"
  ui_queue :: "ui_task list"
  trace :: "event list"
  dcheck_is_on :: bool

definition PostTaskAndReply :: "io_function \<Rightarrow> ui_task \<Rightarrow> world \<Rightarrow> world" where
  "PostTaskAndReply task reply w = w\<lparr>io_queue := io_queue w @ [TaskAndReply task reply]\<rparr>"

definition PostTaskAndReplyWithResult :: "io_query \<Rightarrow> ui_reply \<Rightarrow> world \<Rightarrow> world" where
  "PostTaskAndReplyWithResult task reply w =
     w\<lparr>io_queue := io_queue w @ [TaskAndReplyWithResult task reply]\<rparr>"

text \<open>\<open>callback.Run(value)\<close> on a completion callback.\<close>

definition callback_Run :: "nat \<Rightarrow> completion \<Rightarrow> world \<Rightarrow> world" where
  "callback_Run callback val w = w\<lparr>trace := trace w @ [CallbackRun callback val]\<rparr>"

text \<open>\<open>NOTREACHED()\<close>: fatal with assertions on, passed over otherwise.\<close>

definition NOTREACHED :: "world \<Rightarrow> crash + world" where
  "NOTREACHED w =
     (if dcheck_is_on w then Inl NotReached
      else Inr (w\<lparr>trace := trace w @ [NotReachedPassed]\<rparr>))"

definition ContainsKey :: "('k \<rightharpoonup> 'v) \<Rightarrow> 'k \<Rightarrow> bool" where
  "ContainsKey m k = (m k \<noteq> None)"

subsection \<open>Protocol: the UI-thread side\<close>

text \<open>
  \<open>Protocol::GetProtocolHandler\<close> is \<open>return protocol_handlers_[scheme];\<close>. On a
  \<open>std::map\<close>, \<open>operator[]\<close> inserts a default-constructed value for a missing key.
\<close>

definition GetProtocolHandler :: "string \<Rightarrow> world \<Rightarrow> js_protocol_handler \<times> world" where
  "GetProtocolHandler scheme w =
     (case protocol_handlers w scheme of
        Some handler \<Rightarrow> (handler, w)
      | None \<Rightarrow> (NullCallback,
                 w\<lparr>protocol_handlers := (protocol_handlers w)(scheme \<mapsto> NullCallback)\<rparr>))"

definition OnRegisterProtocol ::
  "string \<Rightarrow> js_protocol_handler \<Rightarrow> nat \<Rightarrow> int \<Rightarrow> world \<Rightarrow> world" where
  "OnRegisterProtocol scheme handler callback is_handled w =
     (if is_handled \<noteq> 0 \<or> ContainsKey (protocol_handlers w) scheme
      then callback_Run callback (V8Error ''The Scheme is already registered'') w
      else PostTaskAndReply (Bind_RegisterProtocolInIO scheme) (Run_callback callback V8Null)
             (w\<lparr>protocol_handlers := (protocol_handlers w)(scheme \<mapsto> handler)\<rparr>))"

definition OnInterceptProtocol ::
  "string \<Rightarrow> js_protocol_handler \<Rightarrow> nat \<Rightarrow> int \<Rightarrow> world \<Rightarrow> world" where
  "OnInterceptProtocol scheme handler callback is_handled w =
     (if is_handled = 0
      then callback_Run callback (V8Error ''Scheme does not exist.'') w
      else if ContainsKey (protocol_handlers w) scheme
      then callback_Run callback (V8Error ''Cannot intercept custom protocols.'') w
      else PostTaskAndReply (Bind_InterceptProtocolInIO scheme) (Run_callback callback V8Null)
             (w\<lparr>protocol_handlers := (protocol_handlers w)(scheme \<mapsto> handler)\<rparr>))"

text \<open>\<open>Protocol::IsHandledProtocol\<close>: the query runs on the I/O thread, the callback after it.\<close>

definition IsHandledProtocol :: "string \<Rightarrow> ui_reply \<Rightarrow> world \<Rightarrow> world" where
  "IsHandledProtocol scheme callback w =
     PostTaskAndReplyWithResult (Bind_IsHandledProtocol scheme) callback w"

definition RegisterProtocol ::
  "string \<Rightarrow> js_protocol_handler \<Rightarrow> nat \<Rightarrow> world \<Rightarrow> world" where
  "RegisterProtocol scheme handler callback w =
     IsHandledProtocol scheme (Bind_OnRegisterProtocol scheme handler callback) w"

definition UnregisterProtocol :: "string \<Rightarrow> nat \<Rightarrow> world \<Rightarrow> world" where
  "UnregisterProtocol scheme callback w =
     (if protocol_handlers w scheme = None
      then callback_Run callback (V8Error ''The Scheme has not been registered'') w
      else PostTaskAndReply (Bind_UnregisterProtocolInIO scheme) (Run_callback callback V8Null)
             (w\<lparr>protocol_handlers := (protocol_handlers w)(scheme := None)\<rparr>))"

definition InterceptProtocol ::
  "string \<Rightarrow> js_protocol_handler \<Rightarrow> nat \<Rightarrow> world \<Rightarrow> world" where
  "InterceptProtocol scheme handler callback w =
     PostTaskAndReplyWithResult (Bind_HasProtocolHandler scheme)
       (Bind_OnInterceptProtocol scheme handler callback) w"

definition UninterceptProtocol :: "string \<Rightarrow> nat \<Rightarrow> world \<Rightarrow> world" where
  "UninterceptProtocol scheme callback w =
     (if protocol_handlers w scheme = None
      then callback_Run callback (V8Error ''The Scheme has not been registered'') w
      else PostTaskAndReply (Bind_UninterceptProtocolInIO scheme) (Run_callback callback V8Null)
             (w\<lparr>protocol_handlers := (protocol_handlers w)(scheme := None)\<rparr>))"

subsection \<open>Protocol: the I/O-thread side\<close>

definition RegisterProtocolInIO :: "string \<Rightarrow> world \<Rightarrow> crash + world" where
  "RegisterProtocolInIO scheme w =
     (let a = fresh_address (heap w);
          h = AList.update a (CustomProtocolHandler None) (heap w);
          (f, h') = factory_SetProtocolHandler scheme (Some a) (job_factory w, h)
      in Inr (w\<lparr>job_factory := f, heap := h'\<rparr>))"

definition UnregisterProtocolInIO :: "string \<Rightarrow> world \<Rightarrow> crash + world" where
  "UnregisterProtocolInIO scheme w =
     (let (f, h) = factory_SetProtocolHandler scheme None (job_factory w, heap w)
      in Inr (w\<lparr>job_factory := f, heap := h\<rparr>))"

text \<open>
  In both functions below the \<open>if\<close> around \<open>NOTREACHED()\<close> has no \<open>return\<close>: where the
  assertion does not end the process, control goes on with the null pointer.
\<close>

definition InterceptProtocolInIO :: "string \<Rightarrow> world \<Rightarrow> crash + world" where
  "InterceptProtocolInIO scheme w =
     (let original_handler = factory_GetProtocolHandler (job_factory w) scheme in
      case (if original_handler = None then NOTREACHED w else Inr w) of
        Inl c \<Rightarrow> Inl c
      | Inr w1 \<Rightarrow>
         (let a = fresh_address (heap w1);
              h = AList.update a (CustomProtocolHandler original_handler) (heap w1);
              (previous, f) = factory_ReplaceProtocol scheme (Some a) (job_factory w1)
          in Inr (w1\<lparr>job_factory := f, heap := h\<rparr>)))"

text \<open>
  \<open>UninterceptProtocolInIO\<close> casts whatever the factory holds to \<open>CustomProtocolHandler\<close>
  and calls a member on it before any check. \<open>ReleaseDefaultProtocolHandler\<close> empties the
  \<open>scoped_ptr\<close> of the object in place and returns what it held, which is the null pointer
  when the assertion was passed over.
\<close>

definition UninterceptProtocolInIO :: "string \<Rightarrow> world \<Rightarrow> crash + world" where
  "UninterceptProtocolInIO scheme w =
     (case factory_GetProtocolHandler (job_factory w) scheme of
        None \<Rightarrow> Inl NullDereference
      | Some handler \<Rightarrow>
         (case map_of (heap w) handler of
            None \<Rightarrow> Inl DanglingPointer
          | Some (DefaultHandler _) \<Rightarrow> Inl BadCast
          | Some (CustomProtocolHandler wrapped) \<Rightarrow>
             (case (if wrapped = None then NOTREACHED w else Inr w) of
                Inl c \<Rightarrow> Inl c
              | Inr w1 \<Rightarrow>
                 (let original_handler = wrapped;
                      h = AList.update handler (CustomProtocolHandler None) (heap w1);
                      (previous, f) = factory_ReplaceProtocol scheme original_handler
                                        (job_factory w1);
                      h' = (case previous of None \<Rightarrow> h | Some p \<Rightarrow> delete_handler h p)
                  in Inr (w1\<lparr>job_factory := f, heap := h'\<rparr>)))))"

subsection \<open>CustomProtocolRequestJob::GetJobTypeInUI\<close>

text \<open>
  The function looks the handler up under the scheme of the request, runs it on the
  converted request and posts one task to the I/O thread; the model returns that task
  with the state the lookup leaves behind.
\<close>

definition GetJobTypeInUI ::
  "custom_protocol_request_job \<Rightarrow> world \<Rightarrow> crash + (adapter_task \<times> world)" where
  "GetJobTypeInUI job w =
     (let (callback, w1) = GetProtocolHandler (url_scheme (request job)) w in
      case callback of
        NullCallback \<Rightarrow> Inl NullCallbackRun
      | JsFunction f \<Rightarrow>
         (let result = f (ToV8 (request job));
              name = GetConstructorName result;
              dict = properties result
          in
          if IsString result then
            Inr (CreateStringJobAndStart ''text/plain'' ''UTF-8'' (V8ToString result), w1)
          else if IsObject result \<and> name = ''RequestStringJob'' then
            Inr (CreateStringJobAndStart (Get_string dict ''mimeType'' [])
                   (Get_string dict ''charset'' []) (Get_string dict ''data'' []), w1)
          else if IsObject result \<and> name = ''RequestBufferJob'' then
            (case BufferToRefCountedBytes (Get_value dict ''data'') of
               Inl c \<Rightarrow> Inl c
             | Inr bytes \<Rightarrow>
                 Inr (CreateBufferJobAndStart (Get_string dict ''mimeType'' [])
                        (Get_string dict ''encoding'' []) bytes, w1))
          else if IsObject result \<and> name = ''RequestFileJob'' then
            Inr (CreateFileJobAndStart (Get_string dict ''path'' []), w1)
          else if IsObject result \<and> name = ''RequestErrorJob'' then
            Inr (CreateErrorJobAndStart (Get_int dict ''error'' ERR_NOT_IMPLEMENTED), w1)
          else if IsObject result \<and> name = ''RequestHttpJob'' then
            Inr (CreateHttpJobAndStart (Get_string dict ''url'' [])
                   (Get_string dict ''method'' []) (Get_string dict ''referrer'' []), w1)
          else if default_protocol_handler job \<noteq> None then
            Inr (CreateJobFromProtocolHandlerAndStart, w1)
          else
            Inr (CreateErrorJobAndStart ERR_NOT_IMPLEMENTED, w1)))"

subsection \<open>The two message loops\<close>

fun run_io_function :: "io_function \<Rightarrow> world \<Rightarrow> crash + world" where
  "run_io_function (Bind_RegisterProtocolInIO scheme) w = RegisterProtocolInIO scheme w"
| "run_io_function (Bind_UnregisterProtocolInIO scheme) w = UnregisterProtocolInIO scheme w"
| "run_io_function (Bind_InterceptProtocolInIO scheme) w = InterceptProtocolInIO scheme w"
| "run_io_function (Bind_UninterceptProtocolInIO scheme) w = UninterceptProtocolInIO scheme w"

fun run_io_query :: "io_query \<Rightarrow> world \<Rightarrow> bool" where
  "run_io_query (Bind_IsHandledProtocol scheme) w =
     factory_IsHandledProtocol (job_factory w) scheme"
| "run_io_query (Bind_HasProtocolHandler scheme) w =
     factory_HasProtocolHandler (job_factory w) scheme"

text \<open>The \<open>bool\<close> a query returns reaches the reply as an \<open>int\<close>.\<close>

fun bind_result :: "ui_reply \<Rightarrow> bool \<Rightarrow> ui_task" where
  "bind_result (Bind_OnRegisterProtocol scheme handler callback) b =
     Run_OnRegisterProtocol scheme handler callback (if b then 1 else 0)"
| "bind_result (Bind_OnInterceptProtocol scheme handler callback) b =
     Run_OnInterceptProtocol scheme handler callback (if b then 1 else 0)"

fun run_ui_task :: "ui_task \<Rightarrow> world \<Rightarrow> world" where
  "run_ui_task (Run_callback callback val) w = callback_Run callback val w"
| "run_ui_task (Run_OnRegisterProtocol scheme handler callback is_handled) w =
     OnRegisterProtocol scheme handler callback is_handled w"
| "run_ui_task (Run_OnInterceptProtocol scheme handler callback is_handled) w =
     OnInterceptProtocol scheme handler callback is_handled w"

text \<open>
  One task of the I/O loop: run the function, then post the reply to the UI loop. A
  crash ends everything.
\<close>

fun io_task_step :: "io_task \<Rightarrow> world \<Rightarrow> crash + world" where
  "io_task_step (TaskAndReply task reply) w =
     (case run_io_function task w of
        Inl c \<Rightarrow> Inl c
      | Inr w' \<Rightarrow> Inr (w'\<lparr>ui_queue := ui_queue w' @ [reply],
                         trace := trace w' @ [IOFunctionRan task]\<rparr>))"
| "io_task_step (TaskAndReplyWithResult task reply) w =
     Inr (w\<lparr>ui_queue := ui_queue w @ [bind_result reply (run_io_query task w)]\<rparr>)"

text \<open>
  Every task can post at most one task in turn, so the work left in the queues is bounded:
  a query is followed by its reply, the reply by an I/O function, that by a callback.
\<close>

fun ui_rank :: "ui_task \<Rightarrow> nat" where
  "ui_rank (Run_callback _ _) = 1"
| "ui_rank (Run_OnRegisterProtocol _ _ _ _) = 3"
| "ui_rank (Run_OnInterceptProtocol _ _ _ _) = 3"

fun io_rank :: "io_task \<Rightarrow> nat" where
  "io_rank (TaskAndReply _ reply) = Suc (ui_rank reply)"
| "io_rank (TaskAndReplyWithResult _ _) = 4"

definition pending :: "world \<Rightarrow> nat" where
  "pending w = sum_list (map io_rank (io_queue w)) + sum_list (map ui_rank (ui_queue w))"

lemma run_io_function_queues:
  "run_io_function task w = Inr w' \<Longrightarrow> io_queue w' = io_queue w \<and> ui_queue w' = ui_queue w"
  by (cases task)
     (auto simp: RegisterProtocolInIO_def UnregisterProtocolInIO_def InterceptProtocolInIO_def
        UninterceptProtocolInIO_def NOTREACHED_def Let_def
        split: prod.splits option.splits protocol_handler.splits if_splits sum.splits)

lemma io_task_step_pending:
  "io_task_step t w = Inr w' \<Longrightarrow> pending w' < pending w + io_rank t"
proof (cases t)
  case (TaskAndReply task reply)
  assume "io_task_step t w = Inr w'"
  with TaskAndReply obtain w1 where w1: "run_io_function task w = Inr w1"
    and w': "w' = w1\<lparr>ui_queue := ui_queue w1 @ [reply], trace := trace w1 @ [IOFunctionRan task]\<rparr>"
    by (auto split: sum.splits)
  from run_io_function_queues [OF w1] w' TaskAndReply show ?thesis
    by (simp add: pending_def)
next
  case (TaskAndReplyWithResult task reply)
  assume "io_task_step t w = Inr w'"
  with TaskAndReplyWithResult show ?thesis
    by (cases reply) (auto simp: pending_def)
qed

lemma run_ui_task_pending: "pending (run_ui_task u w) < pending w + ui_rank u"
  by (cases u)
     (auto simp: pending_def callback_Run_def OnRegisterProtocol_def OnInterceptProtocol_def
        PostTaskAndReply_def)

text \<open>
  Letting both loops run until nothing is left to do. The I/O loop goes first; from a
  state with empty queues one call of the registry never has more than one task in
  flight, so the order between the loops is then forced.
\<close>

function run :: "world \<Rightarrow> crash + world" where
  "run w =
     (case io_queue w of
        t # ts \<Rightarrow>
          (case io_task_step t (w\<lparr>io_queue := ts\<rparr>) of
             Inl c \<Rightarrow> Inl c
           | Inr w' \<Rightarrow> run w')
      | [] \<Rightarrow>
          (case ui_queue w of
             [] \<Rightarrow> Inr w
           | u # us \<Rightarrow> run (run_ui_task u (w\<lparr>ui_queue := us\<rparr>))))"
  by pat_completeness auto
termination
proof (relation "measure pending")
  show "wf (measure pending)" by simp
next
  fix w :: world and t ts w'
  assume q: "io_queue w = t # ts" and s: "io_task_step t (w\<lparr>io_queue := ts\<rparr>) = Inr w'"
  from io_task_step_pending [OF s] q show "(w', w) \<in> measure pending"
    by (simp add: pending_def)
next
  fix w :: world and u us
  assume "io_queue w = []" and q: "ui_queue w = u # us"
  with run_ui_task_pending [of u "w\<lparr>ui_queue := us\<rparr>"]
  show "(run_ui_task u (w\<lparr>ui_queue := us\<rparr>), w) \<in> measure pending"
    by (simp add: pending_def)
qed

declare run.simps [simp del]

definition idle :: "world \<Rightarrow> bool" where
  "idle w = (io_queue w = [] \<and> ui_queue w = [])"

subsection \<open>Modes of an entry\<close>

text \<open>
  The registry map stores the JavaScript handler only. Whether a scheme was registered or
  intercepted shows in the object the factory holds for it: \<open>RegisterProtocolInIO\<close> installs
  a \<open>CustomProtocolHandler\<close> with no wrapped handler, \<open>InterceptProtocolInIO\<close> one that
  wraps the handler it found.
\<close>

datatype mode = Registered | Intercepted

definition entry_mode :: "world \<Rightarrow> string \<Rightarrow> mode option" where
  "entry_mode w scheme =
     (if protocol_handlers w scheme = None then None
      else case factory_GetProtocolHandler (job_factory w) scheme of
             None \<Rightarrow> None
           | Some a \<Rightarrow>
              (case map_of (heap w) a of
                 Some (CustomProtocolHandler None) \<Rightarrow> Some Registered
               | Some (CustomProtocolHandler (Some _)) \<Rightarrow> Some Intercepted
               | _ \<Rightarrow> None))"

subsection \<open>Decisions the adapter job recognises\<close>

definition job_kind_names :: "string list" where
  "job_kind_names = [''RequestStringJob'', ''RequestBufferJob'', ''RequestFileJob'',
                     ''RequestErrorJob'', ''RequestHttpJob'']"

text \<open>An object tagged with one of the five job kinds by its constructor name.\<close>

definition tagged_job_object :: "v8_value \<Rightarrow> bool" where
  "tagged_job_object v = (IsObject v \<and> GetConstructorName v \<in> set job_kind_names)"

subsection \<open>Starting the job an adapter task names\<close>

datatype url_request_job =
    StringJob string string string
  | BufferJob string string "8 word list"
  | FileJob string
  | ErrorJob int
  | HttpJob string string string
  | DefaultJob nat url_request
  | AdapterJob custom_protocol_request_job

text \<open>
  \<open>MaybeCreateJob\<close> through a handler pointer. A \<open>CustomProtocolHandler\<close> answers as above;
  the job of a handler of another class is only known as the job that handler makes for
  that request.
\<close>

definition handler_MaybeCreateJob ::
  "handler_heap \<Rightarrow> nat \<Rightarrow> url_request \<Rightarrow> crash + url_request_job" where
  "handler_MaybeCreateJob h a req =
     (case map_of h a of
        None \<Rightarrow> Inl DanglingPointer
      | Some (DefaultHandler n) \<Rightarrow> Inr (DefaultJob n req)
      | Some (CustomProtocolHandler wrapped) \<Rightarrow> Inr (AdapterJob (MaybeCreateJob wrapped req)))"

text \<open>
  Modelled from the spec: \<open>MaybeCreateJob(request) \<rightarrow> job\<close> of the job factory, which hands
  the request to the handler of its scheme; the factory itself is not part of this file.
\<close>

definition factory_MaybeCreateJob ::
  "job_factory \<Rightarrow> handler_heap \<Rightarrow> url_request \<Rightarrow> crash + url_request_job option" where
  "factory_MaybeCreateJob f h req =
     (case factory_GetProtocolHandler f (url_scheme req) of
        None \<Rightarrow> Inr None
      | Some a \<Rightarrow>
         (case handler_MaybeCreateJob h a req of
            Inl c \<Rightarrow> Inl c
          | Inr j \<Rightarrow> Inr (Some j)))"

text \<open>
  Modelled from the spec: the methods of \<open>AdapterRequestJob\<close> that \<open>GetJobTypeInUI\<close> binds
  (atom/browser/net/adapter_request_job.cc is not part of this file). Each constructs the
  concrete job of its name from the bound fields; the fallback delegates job creation to
  the wrapped prior handler.
\<close>

fun start_job ::
  "adapter_task \<Rightarrow> custom_protocol_request_job \<Rightarrow> handler_heap \<Rightarrow> crash + url_request_job" where
  "start_job (CreateStringJobAndStart mime_type charset data) job h =
     Inr (StringJob mime_type charset data)"
| "start_job (CreateBufferJobAndStart mime_type encoding data) job h =
     Inr (BufferJob mime_type encoding data)"
| "start_job (CreateFileJobAndStart path) job h = Inr (FileJob path)"
| "start_job (CreateErrorJobAndStart error_code) job h = Inr (ErrorJob error_code)"
| "start_job (CreateHttpJobAndStart url method ref) job h = Inr (HttpJob url method ref)"
| "start_job CreateJobFromProtocolHandlerAndStart job h =
     (case default_protocol_handler job of
        None \<Rightarrow> Inl NullDereference
      | Some a \<Rightarrow> handler_MaybeCreateJob h a (request job))"

subsection \<open>The four errors and three example states\<close>

text \<open>
  The registry reports an error as a JavaScript \<open>Error\<close> with a message; these are the
  four messages of the file under the names the interface description gives the errors.
\<close>

definition AlreadyHandled :: completion where
  "AlreadyHandled = V8Error ''The Scheme is already registered''"

definition NotHandled :: completion where
  "NotHandled = V8Error ''Scheme does not exist.''"

definition CannotInterceptCustom :: completion where
  "CannotInterceptCustom = V8Error ''Cannot intercept custom protocols.''"

definition NotRegistered :: completion where
  "NotRegistered = V8Error ''The Scheme has not been registered''"

text \<open>
  A browser, built with assertions on, that serves \<open>http\<close> through a handler of its own
  and \<open>about\<close> inside the network stack; the same after \<open>app\<close> was registered; the same after \<open>http\<close> was intercepted.
\<close>

definition world0 :: world where
  "world0 = \<lparr>protocol_handlers = Map.empty,
             job_factory = \<lparr>protocol_handler_map = [''http'' \<mapsto> 0], network_schemes = [''about'']\<rparr>,
             heap = [(0, DefaultHandler 0)],
             io_queue = [], ui_queue = [], trace = [], dcheck_is_on = True\<rparr>"

definition hello_handler :: js_protocol_handler where
  "hello_handler = JsFunction (\<lambda>req. V8String ''hello'')"

definition world_app :: world where
  "world_app = \<lparr>protocol_handlers = [''app'' \<mapsto> hello_handler],
       job_factory = \<lparr>protocol_handler_map = [''http'' \<mapsto> 0, ''app'' \<mapsto> 1],
                      network_schemes = [''about'']\<rparr>,
       heap = [(0, DefaultHandler 0), (1, CustomProtocolHandler None)],
       io_queue = [], ui_queue = [],
       trace = [IOFunctionRan (Bind_RegisterProtocolInIO ''app''), CallbackRun 1 V8Null],
       dcheck_is_on = True\<rparr>"

definition world_http :: world where
  "world_http = \<lparr>protocol_handlers = [''http'' \<mapsto> hello_handler],
       job_factory = \<lparr>protocol_handler_map = [''http'' \<mapsto> 1], network_schemes = [''about'']\<rparr>,
       heap = [(0, DefaultHandler 0), (1, CustomProtocolHandler (Some 0))],
       io_queue = [], ui_queue = [],
       trace = [IOFunctionRan (Bind_InterceptProtocolInIO ''http''), CallbackRun 1 V8Null],
       dcheck_is_on = True\<rparr>"

text \<open>Two requests, and a handler whose answer is an object of no job kind.\<close>

definition app_request :: url_request where
  "app_request = \<lparr>request_method = ''GET'', url_scheme = ''app'',
                   url_spec = ''app://host/index.html'', referrer = []\<rparr>"

definition http_request :: url_request where
  "http_request = \<lparr>request_method = ''GET'', url_scheme = ''http'',
                    url_spec = ''http://host/index.html'', referrer = []\<rparr>"

definition undecided_handler :: js_protocol_handler where
  "undecided_handler = JsFunction (\<lambda>req. V8Object ''Object'' [])"

section \<open>Properties\<close>

subsection \<open>Running one call to the end\<close>

lemma run_io:
  "io_queue w = t # ts \<Longrightarrow>
   run w = (case io_task_step t (w\<lparr>io_queue := ts\<rparr>) of Inl c \<Rightarrow> Inl c | Inr w' \<Rightarrow> run w')"
  by (subst run.simps) simp

lemma run_ui:
  "io_queue w = [] \<Longrightarrow> ui_queue w = u # us \<Longrightarrow>
   run w = run (run_ui_task u (w\<lparr>ui_queue := us\<rparr>))"
  by (subst run.simps) simp

lemma run_idle: "idle w \<Longrightarrow> run w = Inr w"
  by (subst run.simps) (simp add: idle_def)

lemmas post_defs = PostTaskAndReply_def PostTaskAndReplyWithResult_def callback_Run_def
  ContainsKey_def IsHandledProtocol_def

lemma run_posted:
  assumes "io_queue w = [TaskAndReply task (Run_callback cb V8Null)]" and "ui_queue w = []"
  shows "run w =
     (case run_io_function task (w\<lparr>io_queue := []\<rparr>) of
        Inl c \<Rightarrow> Inl c
      | Inr w' \<Rightarrow> Inr (w'\<lparr>trace := trace w' @ [IOFunctionRan task, CallbackRun cb V8Null]\<rparr>))"
proof (cases "run_io_function task (w\<lparr>io_queue := []\<rparr>)")
  case (Inl c)
  with assms show ?thesis by (simp add: run_io)
next
  case (Inr w')
  from run_io_function_queues [OF Inr] assms
  have q: "io_queue w' = []" "ui_queue w' = []" by simp_all
  then have "w'\<lparr>ui_queue := [], trace := trace w' @ [IOFunctionRan task, CallbackRun cb V8Null]\<rparr>
             = w'\<lparr>trace := trace w' @ [IOFunctionRan task, CallbackRun cb V8Null]\<rparr>"
    by (cases w') simp
  with assms Inr q show ?thesis
    by (simp add: run_io run_ui run_idle idle_def callback_Run_def)
qed

lemma run_query:
  assumes "io_queue w = [TaskAndReplyWithResult task reply]" and "ui_queue w = []"
  shows "run w =
     run (run_ui_task (bind_result reply (run_io_query task (w\<lparr>io_queue := []\<rparr>)))
            (w\<lparr>io_queue := []\<rparr>))"
  using assms by (cases w) (simp add: run_io run_ui)

lemma run_RegisterProtocol:
  assumes "idle w"
  shows "run (RegisterProtocol scheme handler cb w) =
     (if factory_IsHandledProtocol (job_factory w) scheme \<or> protocol_handlers w scheme \<noteq> None
      then Inr (callback_Run cb (V8Error ''The Scheme is already registered'') w)
      else case RegisterProtocolInIO scheme
                  (w\<lparr>protocol_handlers := (protocol_handlers w)(scheme \<mapsto> handler)\<rparr>) of
             Inl c \<Rightarrow> Inl c
           | Inr w' \<Rightarrow> Inr (w'\<lparr>trace := trace w' @ [IOFunctionRan (Bind_RegisterProtocolInIO scheme),
                                                    CallbackRun cb V8Null]\<rparr>))"
  using assms
  by (cases w)
     (simp add: idle_def RegisterProtocol_def post_defs run_query run_idle run_posted
        OnRegisterProtocol_def)

lemma run_UnregisterProtocol:
  assumes "idle w"
  shows "run (UnregisterProtocol scheme cb w) =
     (if protocol_handlers w scheme = None
      then Inr (callback_Run cb (V8Error ''The Scheme has not been registered'') w)
      else case UnregisterProtocolInIO scheme
                  (w\<lparr>protocol_handlers := (protocol_handlers w)(scheme := None)\<rparr>) of
             Inl c \<Rightarrow> Inl c
           | Inr w' \<Rightarrow> Inr (w'\<lparr>trace := trace w' @ [IOFunctionRan (Bind_UnregisterProtocolInIO scheme),
                                                    CallbackRun cb V8Null]\<rparr>))"
  using assms
  by (cases w)
     (simp add: idle_def UnregisterProtocol_def post_defs run_idle run_posted)

lemma run_InterceptProtocol:
  assumes "idle w"
  shows "run (InterceptProtocol scheme handler cb w) =
     (if \<not> factory_HasProtocolHandler (job_factory w) scheme
      then Inr (callback_Run cb (V8Error ''Scheme does not exist.'') w)
      else if protocol_handlers w scheme \<noteq> None
      then Inr (callback_Run cb (V8Error ''Cannot intercept custom protocols.'') w)
      else case InterceptProtocolInIO scheme
                  (w\<lparr>protocol_handlers := (protocol_handlers w)(scheme \<mapsto> handler)\<rparr>) of
             Inl c \<Rightarrow> Inl c
           | Inr w' \<Rightarrow> Inr (w'\<lparr>trace := trace w' @ [IOFunctionRan (Bind_InterceptProtocolInIO scheme),
                                                    CallbackRun cb V8Null]\<rparr>))"
  using assms
  by (cases w)
     (simp add: idle_def InterceptProtocol_def post_defs run_query run_idle run_posted
        OnInterceptProtocol_def)

lemma run_UninterceptProtocol:
  assumes "idle w"
  shows "run (UninterceptProtocol scheme cb w) =
     (if protocol_handlers w scheme = None
      then Inr (callback_Run cb (V8Error ''The Scheme has not been registered'') w)
      else case UninterceptProtocolInIO scheme
                  (w\<lparr>protocol_handlers := (protocol_handlers w)(scheme := None)\<rparr>) of
             Inl c \<Rightarrow> Inl c
           | Inr w' \<Rightarrow> Inr (w'\<lparr>trace := trace w' @ [IOFunctionRan (Bind_UninterceptProtocolInIO scheme),
                                                    CallbackRun cb V8Null]\<rparr>))"
  using assms
  by (cases w)
     (simp add: idle_def UninterceptProtocol_def post_defs run_idle run_posted)

lemma fresh_address_greater: "(a, obj) \<in> set h \<Longrightarrow> a < fresh_address h"
  by (induction h) auto

lemma fresh_address_unused: "fresh_address h \<notin> fst ` set h"
  using fresh_address_greater by fastforce

lemma map_of_fresh_address: "map_of h (fresh_address h) = None"
  using fresh_address_unused [of h] by (simp add: map_of_eq_None_iff)

lemma delete_handler_unwrapped:
  "map_of h a = Some (CustomProtocolHandler None) \<Longrightarrow> delete_handler h a = AList.delete a h"
  by (subst delete_handler.simps) simp

lemmas factory_defs = factory_GetProtocolHandler_def factory_HasProtocolHandler_def
  factory_IsHandledProtocol_def factory_SetProtocolHandler_def factory_ReplaceProtocol_def

lemma UninterceptProtocolInIO_unwrapped:
  assumes "factory_GetProtocolHandler (job_factory w) scheme = Some a"
    and "map_of (heap w) a = Some (CustomProtocolHandler None)"
  shows "UninterceptProtocolInIO scheme w =
     (if dcheck_is_on w then Inl NotReached
      else Inr (w\<lparr>job_factory := (job_factory w)\<lparr>protocol_handler_map :=
                        (protocol_handler_map (job_factory w))(scheme := None)\<rparr>,
                  heap := AList.delete a (heap w),
                  trace := trace w @ [NotReachedPassed]\<rparr>))"
proof -
  have "delete_handler (AList.update a (CustomProtocolHandler None) (heap w)) a =
          AList.delete a (heap w)"
    by (simp add: delete_handler_unwrapped AList.update_conv' AList.delete_update_same)
  with assms show ?thesis
    by (simp add: UninterceptProtocolInIO_def NOTREACHED_def factory_GetProtocolHandler_def
        factory_ReplaceProtocol_def)
qed

lemma UninterceptProtocolInIO_wrapped:
  assumes "factory_GetProtocolHandler (job_factory w) scheme = Some a"
    and "map_of (heap w) a = Some (CustomProtocolHandler (Some H))"
  shows "UninterceptProtocolInIO scheme w =
     Inr (w\<lparr>job_factory := (job_factory w)\<lparr>protocol_handler_map :=
                  (protocol_handler_map (job_factory w))(scheme \<mapsto> H)\<rparr>,
            heap := AList.delete a (heap w)\<rparr>)"
proof -
  have "delete_handler (AList.update a (CustomProtocolHandler None) (heap w)) a =
          AList.delete a (heap w)"
    by (simp add: delete_handler_unwrapped AList.update_conv' AList.delete_update_same)
  with assms show ?thesis
    by (simp add: UninterceptProtocolInIO_def factory_GetProtocolHandler_def
        factory_ReplaceProtocol_def)
qed

lemma idle_world0: "idle world0"
  by (simp add: idle_def world0_def)

lemma idle_world_app: "idle world_app"
  by (simp add: idle_def world_app_def)

lemma idle_world_http: "idle world_http"
  by (simp add: idle_def world_http_def)

lemma Register_app: "run (RegisterProtocol ''app'' hello_handler 1 world0) = Inr world_app"
  by (simp add: run_RegisterProtocol [OF idle_world0] RegisterProtocolInIO_def)
     (simp add: world0_def world_app_def factory_defs fun_upd_twist)

lemma Intercept_http: "run (InterceptProtocol ''http'' hello_handler 1 world0) = Inr world_http"
  by (simp add: run_InterceptProtocol [OF idle_world0] InterceptProtocolInIO_def)
     (simp add: world0_def world_http_def factory_defs)

lemma RegisterProtocolInIO_fields:
  "\<exists>w'. RegisterProtocolInIO scheme w = Inr w' \<and> protocol_handlers w' = protocol_handlers w
     \<and> io_queue w' = io_queue w \<and> ui_queue w' = ui_queue w \<and> trace w' = trace w"
  by (simp add: RegisterProtocolInIO_def Let_def split: prod.splits)

subsection \<open>Register\<close>

text \<open>
  Claim C1. From a state with nothing in flight, \<open>RegisterProtocol\<close> run to the end answers
  the callback with the already-registered error exactly when the scheme has an entry in
  the registry map or the factory reports the scheme as handled, and then nothing but the
  trace has changed. Otherwise the callback gets \<open>null\<close> after \<open>RegisterProtocolInIO\<close> has
  run, the map holds the handler, and any later registration of the scheme is refused and
  leaves that state, the stored handler included, as it is.
\<close>

theorem Register_AlreadyHandled:
  assumes "idle w"
  shows "(if ContainsKey (protocol_handlers w) scheme
             \<or> factory_IsHandledProtocol (job_factory w) scheme
          then run (RegisterProtocol scheme handler callback w) =
                 Inr (w\<lparr>trace := trace w @ [CallbackRun callback AlreadyHandled]\<rparr>)
          else \<exists>w'. run (RegisterProtocol scheme handler callback w) = Inr w'
                 \<and> trace w' = trace w @ [IOFunctionRan (Bind_RegisterProtocolInIO scheme),
                                          CallbackRun callback V8Null]
                 \<and> protocol_handlers w' = (protocol_handlers w)(scheme \<mapsto> handler)
                 \<and> (\<forall>handler2 callback2.
                       run (RegisterProtocol scheme handler2 callback2 w') =
                         Inr (w'\<lparr>trace := trace w' @ [CallbackRun callback2 AlreadyHandled]\<rparr>)))"
proof (cases "ContainsKey (protocol_handlers w) scheme
                \<or> factory_IsHandledProtocol (job_factory w) scheme")
  case True
  with assms show ?thesis
    by (auto simp: run_RegisterProtocol ContainsKey_def callback_Run_def AlreadyHandled_def)
next
  case False
  let ?w1 = "w\<lparr>protocol_handlers := (protocol_handlers w)(scheme \<mapsto> handler)\<rparr>"
  from RegisterProtocolInIO_fields [of scheme ?w1]
  obtain w2 where w2: "RegisterProtocolInIO scheme ?w1 = Inr w2"
    and f: "protocol_handlers w2 = (protocol_handlers w)(scheme \<mapsto> handler)"
      "io_queue w2 = io_queue w" "ui_queue w2 = ui_queue w" "trace w2 = trace w"
    by auto
  let ?w' = "w2\<lparr>trace := trace w @ [IOFunctionRan (Bind_RegisterProtocolInIO scheme),
                                      CallbackRun callback V8Null]\<rparr>"
  from assms f have idle': "idle ?w'" by (simp add: idle_def)
  from assms False w2 f(4) have r: "run (RegisterProtocol scheme handler callback w) = Inr ?w'"
    by (simp add: run_RegisterProtocol ContainsKey_def)
  have again: "run (RegisterProtocol scheme handler2 callback2 ?w') =
                 Inr (?w'\<lparr>trace := trace ?w' @ [CallbackRun callback2 AlreadyHandled]\<rparr>)"
    for handler2 callback2
    using f by (simp add: run_RegisterProtocol [OF idle'] callback_Run_def AlreadyHandled_def)
  from False r f again show ?thesis by simp
qed

theorem Register_AlreadyHandled_witness:
  "idle world0
   \<and> run (RegisterProtocol ''http'' hello_handler 1 world0) =
       Inr (world0\<lparr>trace := [CallbackRun 1 AlreadyHandled]\<rparr>)
   \<and> run (RegisterProtocol ''about'' hello_handler 1 world0) =
       Inr (world0\<lparr>trace := [CallbackRun 1 AlreadyHandled]\<rparr>)
   \<and> (\<exists>w'. run (RegisterProtocol ''app'' hello_handler 1 world0) = Inr w'
         \<and> trace w' = [IOFunctionRan (Bind_RegisterProtocolInIO ''app''), CallbackRun 1 V8Null]
         \<and> protocol_handlers w' ''app'' = Some hello_handler
         \<and> run (RegisterProtocol ''app'' NullCallback 2 w') =
             Inr (w'\<lparr>trace := trace w' @ [CallbackRun 2 AlreadyHandled]\<rparr>))"
proof -
  have i: "idle world0" by (simp add: idle_def world0_def)
  have "run (RegisterProtocol ''http'' hello_handler 1 world0) =
       Inr (world0\<lparr>trace := [CallbackRun 1 AlreadyHandled]\<rparr>)"
    using Register_AlreadyHandled [OF i, of "''http''" hello_handler 1]
    by (simp add: world0_def ContainsKey_def factory_IsHandledProtocol_def
        factory_HasProtocolHandler_def)
  moreover have "run (RegisterProtocol ''about'' hello_handler 1 world0) =
       Inr (world0\<lparr>trace := [CallbackRun 1 AlreadyHandled]\<rparr>)"
    using Register_AlreadyHandled [OF i, of "''about''" hello_handler 1]
    by (simp add: world0_def ContainsKey_def factory_IsHandledProtocol_def
        factory_HasProtocolHandler_def)
  moreover have "\<exists>w'. run (RegisterProtocol ''app'' hello_handler 1 world0) = Inr w'
         \<and> trace w' = [IOFunctionRan (Bind_RegisterProtocolInIO ''app''), CallbackRun 1 V8Null]
         \<and> protocol_handlers w' ''app'' = Some hello_handler
         \<and> run (RegisterProtocol ''app'' NullCallback 2 w') =
             Inr (w'\<lparr>trace := trace w' @ [CallbackRun 2 AlreadyHandled]\<rparr>)"
    using Register_AlreadyHandled [OF i, of "''app''" hello_handler 1]
    by (auto simp: world0_def ContainsKey_def factory_IsHandledProtocol_def
        factory_HasProtocolHandler_def)
  ultimately show ?thesis using i by blast
qed

subsection \<open>Intercept\<close>

lemma InterceptProtocolInIO_fields:
  "factory_GetProtocolHandler (job_factory w) scheme = Some H \<Longrightarrow>
   InterceptProtocolInIO scheme w =
     Inr (w\<lparr>job_factory := (job_factory w)\<lparr>protocol_handler_map :=
                  (protocol_handler_map (job_factory w))(scheme \<mapsto> fresh_address (heap w))\<rparr>,
            heap := AList.update (fresh_address (heap w)) (CustomProtocolHandler (Some H)) (heap w)\<rparr>)"
  by (simp add: InterceptProtocolInIO_def factory_defs Let_def)

text \<open>
  Claim C2, as the code has it. \<open>InterceptProtocol\<close> run to the end answers with the
  scheme-does-not-exist error when the factory has no handler for the scheme; it answers
  with the cannot-intercept-custom error exactly when the factory has a handler and the
  registry map has an entry for the scheme, whatever put the entry there. In both cases
  nothing but the trace has changed. Otherwise the scheme ends up intercepted.
\<close>

theorem Intercept_failures:
  assumes "idle w"
  shows "(if \<not> factory_HasProtocolHandler (job_factory w) scheme
          then run (InterceptProtocol scheme handler callback w) =
                 Inr (w\<lparr>trace := trace w @ [CallbackRun callback NotHandled]\<rparr>)
          else if ContainsKey (protocol_handlers w) scheme
          then run (InterceptProtocol scheme handler callback w) =
                 Inr (w\<lparr>trace := trace w @ [CallbackRun callback CannotInterceptCustom]\<rparr>)
          else \<exists>w'. run (InterceptProtocol scheme handler callback w) = Inr w'
                 \<and> trace w' = trace w @ [IOFunctionRan (Bind_InterceptProtocolInIO scheme),
                                          CallbackRun callback V8Null]
                 \<and> protocol_handlers w' = (protocol_handlers w)(scheme \<mapsto> handler)
                 \<and> entry_mode w' scheme = Some Intercepted)"
proof -
  { assume h: "factory_HasProtocolHandler (job_factory w) scheme"
      and n: "\<not> ContainsKey (protocol_handlers w) scheme"
    from h obtain H where H: "factory_GetProtocolHandler (job_factory w) scheme = Some H"
      by (auto simp: factory_defs)
    let ?w1 = "w\<lparr>protocol_handlers := (protocol_handlers w)(scheme \<mapsto> handler)\<rparr>"
    from H have "factory_GetProtocolHandler (job_factory ?w1) scheme = Some H" by simp
    note io = InterceptProtocolInIO_fields [OF this]
    have "\<exists>w'. run (InterceptProtocol scheme handler callback w) = Inr w'
                 \<and> trace w' = trace w @ [IOFunctionRan (Bind_InterceptProtocolInIO scheme),
                                          CallbackRun callback V8Null]
                 \<and> protocol_handlers w' = (protocol_handlers w)(scheme \<mapsto> handler)
                 \<and> entry_mode w' scheme = Some Intercepted"
      using h n
      by (simp add: run_InterceptProtocol [OF assms] io ContainsKey_def entry_mode_def
          factory_GetProtocolHandler_def AList.update_conv')
  }
  then show ?thesis
    using assms
    by (auto simp: run_InterceptProtocol ContainsKey_def callback_Run_def NotHandled_def
        CannotInterceptCustom_def)
qed

theorem Intercept_failures_witness:
  "idle world0
   \<and> run (InterceptProtocol ''app'' hello_handler 1 world0) =
       Inr (world0\<lparr>trace := [CallbackRun 1 NotHandled]\<rparr>)
   \<and> (\<exists>w'. run (InterceptProtocol ''http'' hello_handler 1 world0) = Inr w'
         \<and> trace w' = [IOFunctionRan (Bind_InterceptProtocolInIO ''http''), CallbackRun 1 V8Null]
         \<and> protocol_handlers w' = [''http'' \<mapsto> hello_handler]
         \<and> entry_mode w' ''http'' = Some Intercepted)
   \<and> idle world_app
   \<and> run (InterceptProtocol ''app'' hello_handler 2 world_app) =
       Inr (world_app\<lparr>trace := trace world_app @ [CallbackRun 2 CannotInterceptCustom]\<rparr>)"
proof -
  have "run (InterceptProtocol ''app'' hello_handler 1 world0) =
       Inr (world0\<lparr>trace := [CallbackRun 1 NotHandled]\<rparr>)"
    using Intercept_failures [OF idle_world0, of "''app''" hello_handler 1]
    by (simp add: world0_def factory_defs)
  moreover have "\<exists>w'. run (InterceptProtocol ''http'' hello_handler 1 world0) = Inr w'
         \<and> trace w' = [IOFunctionRan (Bind_InterceptProtocolInIO ''http''), CallbackRun 1 V8Null]
         \<and> protocol_handlers w' = [''http'' \<mapsto> hello_handler]
         \<and> entry_mode w' ''http'' = Some Intercepted"
    using Intercept_failures [OF idle_world0, of "''http''" hello_handler 1]
    by (simp add: world0_def factory_defs ContainsKey_def)
  moreover have "run (InterceptProtocol ''app'' hello_handler 2 world_app) =
       Inr (world_app\<lparr>trace := trace world_app @ [CallbackRun 2 CannotInterceptCustom]\<rparr>)"
    using Intercept_failures [OF idle_world_app, of "''app''" hello_handler 2]
    by (simp add: world_app_def factory_defs ContainsKey_def)
  ultimately show ?thesis using idle_world0 idle_world_app by blast
qed

text \<open>
  The entry need not be a registration: after \<open>http\<close> has been intercepted, its entry is in
  intercepted mode, and intercepting \<open>http\<close> again is refused with the same error.
\<close>

theorem Intercept_twice_counterexample:
  "run (InterceptProtocol ''http'' hello_handler 1 world0) = Inr world_http
   \<and> entry_mode world_http ''http'' = Some Intercepted
   \<and> entry_mode world_http ''http'' \<noteq> Some Registered
   \<and> run (InterceptProtocol ''http'' hello_handler 2 world_http) =
       Inr (world_http\<lparr>trace := trace world_http @ [CallbackRun 2 CannotInterceptCustom]\<rparr>)"
proof -
  have "entry_mode world_http ''http'' = Some Intercepted"
    by (simp add: entry_mode_def world_http_def factory_defs)
  moreover have "run (InterceptProtocol ''http'' hello_handler 2 world_http) =
       Inr (world_http\<lparr>trace := trace world_http @ [CallbackRun 2 CannotInterceptCustom]\<rparr>)"
    by (simp add: run_InterceptProtocol [OF idle_world_http] callback_Run_def
        CannotInterceptCustom_def)
       (simp add: world_http_def factory_defs)
  ultimately show ?thesis using Intercept_http by simp
qed

subsection \<open>Intercept, then Unintercept\<close>

text \<open>
  Claim C3, as the code has it. Let the factory hold a live handler object \<open>H\<close> for a
  scheme that has no registry entry, so that the interception is accepted.
  \<open>InterceptProtocol\<close> run to the end leaves the factory pointing at a new object that
  wraps \<open>H\<close>, with \<open>H\<close> itself untouched. \<open>UninterceptProtocol\<close> run to the end after it gives
  back the state before the interception, up to the trace: the factory holds \<open>H\<close> again,
  \<open>H\<close> is the same object, the wrapping object is gone from the store, and the registry
  entry is removed. A request is served from the factory table and the store alone, so it
  is served as before.
\<close>

theorem Intercept_Unintercept_restores:
  assumes "idle w"
    and "factory_GetProtocolHandler (job_factory w) scheme = Some H"
    and "map_of (heap w) H = Some obj"
    and "\<not> ContainsKey (protocol_handlers w) scheme"
  shows "\<exists>w1 a.
      run (InterceptProtocol scheme handler callback1 w) = Inr w1
    \<and> trace w1 = trace w @ [IOFunctionRan (Bind_InterceptProtocolInIO scheme),
                             CallbackRun callback1 V8Null]
    \<and> protocol_handlers w1 = (protocol_handlers w)(scheme \<mapsto> handler)
    \<and> factory_GetProtocolHandler (job_factory w1) scheme = Some a
    \<and> a \<noteq> H
    \<and> map_of (heap w) a = None
    \<and> map_of (heap w1) a = Some (CustomProtocolHandler (Some H))
    \<and> map_of (heap w1) H = Some obj
    \<and> run (UninterceptProtocol scheme callback2 w1) =
        Inr (w\<lparr>trace := trace w1 @ [IOFunctionRan (Bind_UninterceptProtocolInIO scheme),
                                     CallbackRun callback2 V8Null]\<rparr>)"
proof -
  let ?a = "fresh_address (heap w)"
  let ?f1 = "(job_factory w)\<lparr>protocol_handler_map :=
               (protocol_handler_map (job_factory w))(scheme \<mapsto> ?a)\<rparr>"
  let ?h1 = "AList.update ?a (CustomProtocolHandler (Some H)) (heap w)"
  let ?w1 = "w\<lparr>protocol_handlers := (protocol_handlers w)(scheme \<mapsto> handler),
               job_factory := ?f1, heap := ?h1,
               trace := trace w @ [IOFunctionRan (Bind_InterceptProtocolInIO scheme),
                                   CallbackRun callback1 V8Null]\<rparr>"
  have fresh: "map_of (heap w) ?a = None" by (rule map_of_fresh_address)
  with assms(3) have neq: "?a \<noteq> H" by auto
  have unused: "?a \<notin> fst ` set (heap w)" by (rule fresh_address_unused)
  from assms(2) have has: "factory_HasProtocolHandler (job_factory w) scheme"
    by (simp add: factory_defs)
  from assms(2)
  have get: "factory_GetProtocolHandler
               (job_factory (w\<lparr>protocol_handlers := (protocol_handlers w)(scheme \<mapsto> handler)\<rparr>))
               scheme = Some H"
    by simp
  have r1: "run (InterceptProtocol scheme handler callback1 w) = Inr ?w1"
    using has assms(4)
    by (simp add: run_InterceptProtocol [OF assms(1)] InterceptProtocolInIO_fields [OF get]
        ContainsKey_def)
  have idle1: "idle ?w1" using assms(1) by (simp add: idle_def)
  have obj1: "map_of ?h1 ?a = Some (CustomProtocolHandler (Some H))"
    by (simp add: AList.update_conv')
  have objH: "map_of ?h1 H = Some obj"
    using neq assms(3) by (simp add: AList.update_conv')
  have del: "delete_handler (AList.update ?a (CustomProtocolHandler None) ?h1) ?a = heap w"
    using unused
    by (simp add: delete_handler_unwrapped AList.update_conv' AList.delete_update_same)
  have restore: "?f1\<lparr>protocol_handler_map := (protocol_handler_map ?f1)(scheme \<mapsto> H)\<rparr>
                  = job_factory w"
    using assms(2) by (simp add: factory_GetProtocolHandler_def fun_upd_idem)
  have map_restore: "((protocol_handlers w)(scheme \<mapsto> handler))(scheme := None)
                       = protocol_handlers w"
    using assms(4) by (simp add: ContainsKey_def fun_upd_idem)
  have io2: "UninterceptProtocolInIO scheme
               (?w1\<lparr>protocol_handlers := (protocol_handlers ?w1)(scheme := None)\<rparr>)
             = Inr (w\<lparr>trace := trace ?w1\<rparr>)"
    using obj1 del restore map_restore
    by (simp add: UninterceptProtocolInIO_def factory_GetProtocolHandler_def
        factory_ReplaceProtocol_def)
  have r2: "run (UninterceptProtocol scheme callback2 ?w1) =
        Inr (w\<lparr>trace := trace ?w1 @ [IOFunctionRan (Bind_UninterceptProtocolInIO scheme),
                                      CallbackRun callback2 V8Null]\<rparr>)"
    by (simp only: run_UninterceptProtocol [OF idle1] io2) simp
  show ?thesis
    apply (rule exI [of _ ?w1])
    apply (rule exI [of _ ?a])
    using r1 r2 fresh neq obj1 objH
    apply (simp add: factory_GetProtocolHandler_def)
    done
qed

theorem Intercept_Unintercept_restores_witness:
  "idle world0
   \<and> factory_GetProtocolHandler (job_factory world0) ''http'' = Some 0
   \<and> map_of (heap world0) 0 = Some (DefaultHandler 0)
   \<and> \<not> ContainsKey (protocol_handlers world0) ''http''
   \<and> (\<exists>w1 a.
      run (InterceptProtocol ''http'' hello_handler 1 world0) = Inr w1
    \<and> trace w1 = [IOFunctionRan (Bind_InterceptProtocolInIO ''http''), CallbackRun 1 V8Null]
    \<and> protocol_handlers w1 = [''http'' \<mapsto> hello_handler]
    \<and> factory_GetProtocolHandler (job_factory w1) ''http'' = Some a
    \<and> a \<noteq> 0
    \<and> map_of (heap world0) a = None
    \<and> map_of (heap w1) a = Some (CustomProtocolHandler (Some 0))
    \<and> map_of (heap w1) 0 = Some (DefaultHandler 0)
    \<and> run (UninterceptProtocol ''http'' 2 w1) =
        Inr (world0\<lparr>trace := [IOFunctionRan (Bind_InterceptProtocolInIO ''http''),
                                CallbackRun 1 V8Null,
                                IOFunctionRan (Bind_UninterceptProtocolInIO ''http''),
                                CallbackRun 2 V8Null]\<rparr>))"
proof -
  have a: "factory_GetProtocolHandler (job_factory world0) ''http'' = Some 0"
    by (simp add: world0_def factory_defs)
  have b: "map_of (heap world0) 0 = Some (DefaultHandler 0)"
    by (simp add: world0_def)
  have c: "\<not> ContainsKey (protocol_handlers world0) ''http''"
    by (simp add: world0_def ContainsKey_def)
  have t: "trace world0 = []" "protocol_handlers world0 = Map.empty"
    by (simp_all add: world0_def)
  from Intercept_Unintercept_restores [OF idle_world0 a b c, of hello_handler 1 2]
  show ?thesis using idle_world0 a b c by (auto simp: t)
qed

text \<open>
  For a scheme that has an entry the interception is refused, and the uninterception
  that follows works on the entry that was there. With \<open>http\<close> already intercepted, the
  factory's handler is the wrapping object at address 1; after the two calls the factory
  holds the handler at address 0 and the object at address 1 is gone. With \<open>app\<close>
  registered, the two calls end in the failed assertion.
\<close>

theorem Intercept_refused_counterexample:
  "factory_GetProtocolHandler (job_factory world_http) ''http'' = Some 1
   \<and> map_of (heap world_http) 1 = Some (CustomProtocolHandler (Some 0))
   \<and> run (InterceptProtocol ''http'' hello_handler 2 world_http) =
       Inr (world_http\<lparr>trace := trace world_http @ [CallbackRun 2 CannotInterceptCustom]\<rparr>)
   \<and> run (UninterceptProtocol ''http'' 3
            (world_http\<lparr>trace := trace world_http @ [CallbackRun 2 CannotInterceptCustom]\<rparr>)) =
       Inr (world0\<lparr>trace := trace world_http @
                       [CallbackRun 2 CannotInterceptCustom,
                        IOFunctionRan (Bind_UninterceptProtocolInIO ''http''),
                        CallbackRun 3 V8Null]\<rparr>)
   \<and> factory_GetProtocolHandler (job_factory world0) ''http'' = Some 0
   \<and> map_of (heap world0) 1 = None
   \<and> factory_GetProtocolHandler (job_factory world_app) ''app'' = Some 1
   \<and> run (InterceptProtocol ''app'' hello_handler 2 world_app) =
       Inr (world_app\<lparr>trace := trace world_app @ [CallbackRun 2 CannotInterceptCustom]\<rparr>)
   \<and> run (UninterceptProtocol ''app'' 3
            (world_app\<lparr>trace := trace world_app @ [CallbackRun 2 CannotInterceptCustom]\<rparr>)) =
       Inl NotReached"
proof -
  let ?h = "world_http\<lparr>trace := trace world_http @ [CallbackRun 2 CannotInterceptCustom]\<rparr>"
  let ?a = "world_app\<lparr>trace := trace world_app @ [CallbackRun 2 CannotInterceptCustom]\<rparr>"
  have ih: "idle ?h" using idle_world_http by (simp add: idle_def)
  have ia: "idle ?a" using idle_world_app by (simp add: idle_def)
  have 1: "factory_GetProtocolHandler (job_factory world_http) ''http'' = Some 1"
    "map_of (heap world_http) 1 = Some (CustomProtocolHandler (Some 0))"
    "factory_GetProtocolHandler (job_factory world0) ''http'' = Some 0"
    "map_of (heap world0) 1 = None"
    "factory_GetProtocolHandler (job_factory world_app) ''app'' = Some 1"
    by (simp_all add: world_http_def world0_def world_app_def factory_defs)
  have eh: "(protocol_handlers ?h ''http'' = None) = False"
    and ea: "(protocol_handlers ?a ''app'' = None) = False"
    by (simp_all add: world_http_def world_app_def)
  have 2: "run (InterceptProtocol ''http'' hello_handler 2 world_http) = Inr ?h"
    by (simp add: run_InterceptProtocol [OF idle_world_http] callback_Run_def
        CannotInterceptCustom_def)
       (simp add: world_http_def factory_defs)
  have 3: "run (InterceptProtocol ''app'' hello_handler 2 world_app) = Inr ?a"
    by (simp add: run_InterceptProtocol [OF idle_world_app] callback_Run_def
        CannotInterceptCustom_def)
       (simp add: world_app_def factory_defs)
  have "factory_GetProtocolHandler
          (job_factory (?h\<lparr>protocol_handlers := (protocol_handlers ?h)(''http'' := None)\<rparr>))
          ''http'' = Some 1"
    and "map_of (heap (?h\<lparr>protocol_handlers := (protocol_handlers ?h)(''http'' := None)\<rparr>)) 1 =
          Some (CustomProtocolHandler (Some 0))"
    by (simp_all add: world_http_def factory_defs)
  note io = UninterceptProtocolInIO_wrapped [OF this]
  have 4: "run (UninterceptProtocol ''http'' 3 ?h) =
       Inr (world0\<lparr>trace := trace world_http @
                       [CallbackRun 2 CannotInterceptCustom,
                        IOFunctionRan (Bind_UninterceptProtocolInIO ''http''),
                        CallbackRun 3 V8Null]\<rparr>)"
    using eh
    by (simp only: run_UninterceptProtocol [OF ih] io if_False sum.case)
       (simp add: world_http_def world0_def)
  have "factory_GetProtocolHandler
          (job_factory (?a\<lparr>protocol_handlers := (protocol_handlers ?a)(''app'' := None)\<rparr>))
          ''app'' = Some 1"
    and "map_of (heap (?a\<lparr>protocol_handlers := (protocol_handlers ?a)(''app'' := None)\<rparr>)) 1 =
          Some (CustomProtocolHandler None)"
    by (simp_all add: world_app_def factory_defs)
  note io' = UninterceptProtocolInIO_unwrapped [OF this]
  have 5: "run (UninterceptProtocol ''app'' 3 ?a) = Inl NotReached"
    using ea
    by (simp only: run_UninterceptProtocol [OF ia] io' if_False sum.case)
       (simp add: world_app_def)
  from 1 2 3 4 5 show ?thesis by simp
qed

subsection \<open>Unregister\<close>

text \<open>
  Claim C5. \<open>UnregisterProtocol\<close> run to the end answers with the has-not-been-registered
  error exactly when the scheme has no entry in the registry map, and then nothing but the
  trace has changed. Otherwise the call itself already removes the entry and only posts
  \<open>UnregisterProtocolInIO\<close>; once that has run the factory has no handler for the scheme,
  and the callback gets \<open>null\<close> after it.
\<close>

theorem Unregister_NotRegistered:
  assumes "idle w"
  shows "(if \<not> ContainsKey (protocol_handlers w) scheme
          then run (UnregisterProtocol scheme callback w) =
                 Inr (w\<lparr>trace := trace w @ [CallbackRun callback NotRegistered]\<rparr>)
          else UnregisterProtocol scheme callback w =
                 w\<lparr>protocol_handlers := (protocol_handlers w)(scheme := None),
                   io_queue := [TaskAndReply (Bind_UnregisterProtocolInIO scheme)
                                  (Run_callback callback V8Null)]\<rparr>
             \<and> (\<exists>w'. run (UnregisterProtocol scheme callback w) = Inr w'
                   \<and> trace w' = trace w @ [IOFunctionRan (Bind_UnregisterProtocolInIO scheme),
                                            CallbackRun callback V8Null]
                   \<and> protocol_handlers w' = (protocol_handlers w)(scheme := None)
                   \<and> factory_GetProtocolHandler (job_factory w') scheme = None))"
proof (cases "ContainsKey (protocol_handlers w) scheme")
  case False
  with assms show ?thesis
    by (simp add: run_UnregisterProtocol ContainsKey_def callback_Run_def NotRegistered_def)
next
  case True
  have posted: "UnregisterProtocol scheme callback w =
                 w\<lparr>protocol_handlers := (protocol_handlers w)(scheme := None),
                   io_queue := [TaskAndReply (Bind_UnregisterProtocolInIO scheme)
                                  (Run_callback callback V8Null)]\<rparr>"
    using assms True
    by (auto simp: UnregisterProtocol_def PostTaskAndReply_def idle_def ContainsKey_def)
  have "\<exists>w'. run (UnregisterProtocol scheme callback w) = Inr w'
                   \<and> trace w' = trace w @ [IOFunctionRan (Bind_UnregisterProtocolInIO scheme),
                                            CallbackRun callback V8Null]
                   \<and> protocol_handlers w' = (protocol_handlers w)(scheme := None)
                   \<and> factory_GetProtocolHandler (job_factory w') scheme = None"
    using True
    by (auto simp: run_UnregisterProtocol [OF assms] ContainsKey_def UnregisterProtocolInIO_def
        factory_defs Let_def split: prod.splits)
  with posted True show ?thesis by simp
qed

theorem Unregister_NotRegistered_witness:
  "idle world0
   \<and> run (UnregisterProtocol ''app'' 2 world0) =
       Inr (world0\<lparr>trace := [CallbackRun 2 NotRegistered]\<rparr>)
   \<and> idle world_app
   \<and> UnregisterProtocol ''app'' 2 world_app =
       world_app\<lparr>protocol_handlers := (protocol_handlers world_app)(''app'' := None),
                 io_queue := [TaskAndReply (Bind_UnregisterProtocolInIO ''app'')
                                (Run_callback 2 V8Null)]\<rparr>
   \<and> (\<exists>w'. run (UnregisterProtocol ''app'' 2 world_app) = Inr w'
         \<and> trace w' = trace world_app @ [IOFunctionRan (Bind_UnregisterProtocolInIO ''app''),
                                         CallbackRun 2 V8Null]
         \<and> protocol_handlers w' = (protocol_handlers world_app)(''app'' := None)
         \<and> factory_GetProtocolHandler (job_factory w') ''app'' = None)"
proof -
  have "run (UnregisterProtocol ''app'' 2 world0) =
       Inr (world0\<lparr>trace := [CallbackRun 2 NotRegistered]\<rparr>)"
    using Unregister_NotRegistered [OF idle_world0, of "''app''" 2]
    by (simp add: world0_def ContainsKey_def)
  moreover have "UnregisterProtocol ''app'' 2 world_app =
       world_app\<lparr>protocol_handlers := (protocol_handlers world_app)(''app'' := None),
                 io_queue := [TaskAndReply (Bind_UnregisterProtocolInIO ''app'')
                                (Run_callback 2 V8Null)]\<rparr>
   \<and> (\<exists>w'. run (UnregisterProtocol ''app'' 2 world_app) = Inr w'
         \<and> trace w' = trace world_app @ [IOFunctionRan (Bind_UnregisterProtocolInIO ''app''),
                                         CallbackRun 2 V8Null]
         \<and> protocol_handlers w' = (protocol_handlers world_app)(''app'' := None)
         \<and> factory_GetProtocolHandler (job_factory w') ''app'' = None)"
  proof -
    have c: "(\<not> ContainsKey (protocol_handlers world_app) ''app'') = False"
      by (simp add: world_app_def ContainsKey_def)
    show ?thesis
      using Unregister_NotRegistered [OF idle_world_app, of "''app''" 2]
      unfolding c if_False .
  qed
  ultimately show ?thesis using idle_world0 idle_world_app by blast
qed

subsection \<open>Lookup\<close>

text \<open>
  Claim C8. For a scheme with no entry, \<open>GetProtocolHandler\<close> returns the null callback
  and leaves a state that differs from the one before: the map now has an entry with the
  null callback for the scheme. A registration of the scheme after that is refused as
  already registered.
\<close>

theorem GetProtocolHandler_inserts:
  assumes "idle w"
    and "\<not> ContainsKey (protocol_handlers w) scheme"
  shows "GetProtocolHandler scheme w =
           (NullCallback, w\<lparr>protocol_handlers := (protocol_handlers w)(scheme \<mapsto> NullCallback)\<rparr>)
       \<and> snd (GetProtocolHandler scheme w) \<noteq> w
       \<and> run (RegisterProtocol scheme handler callback (snd (GetProtocolHandler scheme w))) =
           Inr (snd (GetProtocolHandler scheme w)
                  \<lparr>trace := trace w @ [CallbackRun callback AlreadyHandled]\<rparr>)"
proof -
  let ?w' = "w\<lparr>protocol_handlers := (protocol_handlers w)(scheme \<mapsto> NullCallback)\<rparr>"
  from assms(2) have get: "GetProtocolHandler scheme w = (NullCallback, ?w')"
    by (simp add: GetProtocolHandler_def ContainsKey_def)
  have "protocol_handlers ?w' scheme \<noteq> protocol_handlers w scheme"
    using assms(2) by (simp add: ContainsKey_def)
  then have changed: "?w' \<noteq> w" by metis
  from assms(1) have "idle ?w'" by (simp add: idle_def)
  then have "run (RegisterProtocol scheme handler callback ?w') =
               Inr (?w'\<lparr>trace := trace w @ [CallbackRun callback AlreadyHandled]\<rparr>)"
    by (simp add: run_RegisterProtocol callback_Run_def AlreadyHandled_def)
  with get changed show ?thesis by simp
qed

theorem GetProtocolHandler_inserts_witness:
  "idle world0
   \<and> \<not> ContainsKey (protocol_handlers world0) ''app''
   \<and> GetProtocolHandler ''app'' world0 =
       (NullCallback,
        world0\<lparr>protocol_handlers := (protocol_handlers world0)(''app'' \<mapsto> NullCallback)\<rparr>)
   \<and> snd (GetProtocolHandler ''app'' world0) \<noteq> world0
   \<and> run (RegisterProtocol ''app'' hello_handler 1 (snd (GetProtocolHandler ''app'' world0))) =
       Inr (snd (GetProtocolHandler ''app'' world0)
              \<lparr>trace := trace world0 @ [CallbackRun 1 AlreadyHandled]\<rparr>)
   \<and> run (RegisterProtocol ''app'' hello_handler 1 world0) = Inr world_app"
proof -
  have c: "\<not> ContainsKey (protocol_handlers world0) ''app''"
    by (simp add: world0_def ContainsKey_def)
  from GetProtocolHandler_inserts [OF idle_world0 c, of hello_handler 1]
  show ?thesis using idle_world0 c Register_app by blast
qed

subsection \<open>Unintercept of a scheme that was only registered\<close>

lemma Register_gives_Registered:
  assumes "idle w"
    and "\<not> ContainsKey (protocol_handlers w) scheme"
    and "\<not> factory_IsHandledProtocol (job_factory w) scheme"
  shows "\<exists>w1. run (RegisterProtocol scheme handler callback w) = Inr w1 \<and> idle w1
            \<and> entry_mode w1 scheme = Some Registered"
  using assms
  by (auto simp: run_RegisterProtocol ContainsKey_def RegisterProtocolInIO_def factory_defs
      entry_mode_def idle_def AList.update_conv' Let_def)

text \<open>
  Claim C9. A registration that is accepted leaves the scheme in registered mode. For a
  scheme in registered mode, \<open>UninterceptProtocol\<close> does not report an error: it removes the
  entry and posts \<open>UninterceptProtocolInIO\<close>, and that function reaches \<open>NOTREACHED()\<close>. In a
  build with assertions on the run ends there; in a build without them the assertion is
  passed over, which the trace records, before the reply is posted.
\<close>

theorem Unintercept_of_registered_asserts:
  assumes "idle w"
  shows "(\<not> ContainsKey (protocol_handlers w) scheme
            \<and> \<not> factory_IsHandledProtocol (job_factory w) scheme \<longrightarrow>
          (\<exists>w1. run (RegisterProtocol scheme handler callback1 w) = Inr w1 \<and> idle w1
             \<and> entry_mode w1 scheme = Some Registered))
       \<and> (entry_mode w scheme = Some Registered \<longrightarrow>
            UninterceptProtocol scheme callback2 w =
              w\<lparr>protocol_handlers := (protocol_handlers w)(scheme := None),
                io_queue := [TaskAndReply (Bind_UninterceptProtocolInIO scheme)
                               (Run_callback callback2 V8Null)]\<rparr>
          \<and> (if dcheck_is_on w
              then UninterceptProtocolInIO scheme
                     (w\<lparr>protocol_handlers := (protocol_handlers w)(scheme := None)\<rparr>) =
                     Inl NotReached
                 \<and> run (UninterceptProtocol scheme callback2 w) = Inl NotReached
              else (\<exists>w'. UninterceptProtocolInIO scheme
                            (w\<lparr>protocol_handlers := (protocol_handlers w)(scheme := None)\<rparr>) =
                            Inr w'
                         \<and> trace w' = trace w @ [NotReachedPassed])
                 \<and> (\<exists>w'. run (UninterceptProtocol scheme callback2 w) = Inr w'
                         \<and> trace w' = trace w @ [NotReachedPassed,
                               IOFunctionRan (Bind_UninterceptProtocolInIO scheme),
                               CallbackRun callback2 V8Null])))"
proof -
  { assume m: "entry_mode w scheme = Some Registered"
    let ?w1 = "w\<lparr>protocol_handlers := (protocol_handlers w)(scheme := None)\<rparr>"
    from m obtain a where e: "protocol_handlers w scheme \<noteq> None"
      and a: "factory_GetProtocolHandler (job_factory w) scheme = Some a"
      and o: "map_of (heap w) a = Some (CustomProtocolHandler None)"
      by (auto simp: entry_mode_def split: if_splits option.splits protocol_handler.splits)
    have posted: "UninterceptProtocol scheme callback2 w =
              w\<lparr>protocol_handlers := (protocol_handlers w)(scheme := None),
                io_queue := [TaskAndReply (Bind_UninterceptProtocolInIO scheme)
                               (Run_callback callback2 V8Null)]\<rparr>"
      using assms e by (auto simp: UninterceptProtocol_def PostTaskAndReply_def idle_def)
    from a o have a1: "factory_GetProtocolHandler (job_factory ?w1) scheme = Some a"
      and o1: "map_of (heap ?w1) a = Some (CustomProtocolHandler None)"
      by simp_all
    note io = UninterceptProtocolInIO_unwrapped [OF a1 o1]
    have "if dcheck_is_on w
          then UninterceptProtocolInIO scheme ?w1 = Inl NotReached
             \<and> run (UninterceptProtocol scheme callback2 w) = Inl NotReached
          else (\<exists>w'. UninterceptProtocolInIO scheme ?w1 = Inr w'
                     \<and> trace w' = trace w @ [NotReachedPassed])
             \<and> (\<exists>w'. run (UninterceptProtocol scheme callback2 w) = Inr w'
                     \<and> trace w' = trace w @ [NotReachedPassed,
                           IOFunctionRan (Bind_UninterceptProtocolInIO scheme),
                           CallbackRun callback2 V8Null])"
      using e by (auto simp: run_UninterceptProtocol [OF assms] io)
    note posted this }
  with Register_gives_Registered [OF assms] show ?thesis by blast
qed

theorem Unintercept_of_registered_asserts_witness:
  "idle world0
   \<and> run (RegisterProtocol ''app'' hello_handler 1 world0) = Inr world_app
   \<and> idle world_app
   \<and> entry_mode world_app ''app'' = Some Registered
   \<and> UninterceptProtocol ''app'' 2 world_app =
       world_app\<lparr>protocol_handlers := (protocol_handlers world_app)(''app'' := None),
                 io_queue := [TaskAndReply (Bind_UninterceptProtocolInIO ''app'')
                                (Run_callback 2 V8Null)]\<rparr>
   \<and> UninterceptProtocolInIO ''app''
       (world_app\<lparr>protocol_handlers := (protocol_handlers world_app)(''app'' := None)\<rparr>) =
       Inl NotReached
   \<and> run (UninterceptProtocol ''app'' 2 world_app) = Inl NotReached
   \<and> idle (world_app\<lparr>dcheck_is_on := False\<rparr>)
   \<and> entry_mode (world_app\<lparr>dcheck_is_on := False\<rparr>) ''app'' = Some Registered
   \<and> (\<exists>w'. run (UninterceptProtocol ''app'' 2 (world_app\<lparr>dcheck_is_on := False\<rparr>)) = Inr w'
         \<and> trace w' = trace world_app @ [NotReachedPassed,
               IOFunctionRan (Bind_UninterceptProtocolInIO ''app''), CallbackRun 2 V8Null])"
proof -
  let ?r = "world_app\<lparr>dcheck_is_on := False\<rparr>"
  have m: "entry_mode world_app ''app'' = Some Registered"
    by (simp add: entry_mode_def world_app_def factory_defs)
  have d: "dcheck_is_on world_app" by (simp add: world_app_def)
  have i: "idle ?r" using idle_world_app by (simp add: idle_def)
  have mr: "entry_mode ?r ''app'' = Some Registered"
    by (simp add: entry_mode_def world_app_def factory_defs)
  from Unintercept_of_registered_asserts [OF idle_world_app, of "''app''" hello_handler 1 2] m
  have posted: "UninterceptProtocol ''app'' 2 world_app =
       world_app\<lparr>protocol_handlers := (protocol_handlers world_app)(''app'' := None),
                 io_queue := [TaskAndReply (Bind_UninterceptProtocolInIO ''app'')
                                (Run_callback 2 V8Null)]\<rparr>"
    and branch: "if dcheck_is_on world_app
       then UninterceptProtocolInIO ''app''
              (world_app\<lparr>protocol_handlers := (protocol_handlers world_app)(''app'' := None)\<rparr>) =
              Inl NotReached
          \<and> run (UninterceptProtocol ''app'' 2 world_app) = Inl NotReached
       else (\<exists>w'. UninterceptProtocolInIO ''app''
                     (world_app\<lparr>protocol_handlers :=
                        (protocol_handlers world_app)(''app'' := None)\<rparr>) = Inr w'
                  \<and> trace w' = trace world_app @ [NotReachedPassed])
          \<and> (\<exists>w'. run (UninterceptProtocol ''app'' 2 world_app) = Inr w'
                  \<and> trace w' = trace world_app @ [NotReachedPassed,
                        IOFunctionRan (Bind_UninterceptProtocolInIO ''app''),
                        CallbackRun 2 V8Null])"
    by blast+
  from branch d
  have on: "UninterceptProtocolInIO ''app''
       (world_app\<lparr>protocol_handlers := (protocol_handlers world_app)(''app'' := None)\<rparr>) =
       Inl NotReached
     \<and> run (UninterceptProtocol ''app'' 2 world_app) = Inl NotReached"
    by (simp only: if_True)
  from Unintercept_of_registered_asserts [OF i, of "''app''" hello_handler 1 2] mr
  have "if dcheck_is_on ?r then False
        else (\<exists>w'. run (UninterceptProtocol ''app'' 2 ?r) = Inr w'
         \<and> trace w' = trace ?r @ [NotReachedPassed,
               IOFunctionRan (Bind_UninterceptProtocolInIO ''app''), CallbackRun 2 V8Null])"
    by auto
  then have off: "\<exists>w'. run (UninterceptProtocol ''app'' 2 ?r) = Inr w'
         \<and> trace w' = trace world_app @ [NotReachedPassed,
               IOFunctionRan (Bind_UninterceptProtocolInIO ''app''), CallbackRun 2 V8Null]"
    by simp
  from posted on off show ?thesis
    using idle_world0 idle_world_app Register_app m i mr by blast
qed

subsection \<open>Decisions\<close>

lemma GetJobTypeInUI_unrecognised:
  assumes "protocol_handlers w (url_scheme (request job)) = Some (JsFunction f)"
    and "\<not> IsString (f (ToV8 (request job)))"
    and "\<not> tagged_job_object (f (ToV8 (request job)))"
  shows "GetJobTypeInUI job w =
           Inr (if default_protocol_handler job \<noteq> None
                then CreateJobFromProtocolHandlerAndStart
                else CreateErrorJobAndStart ERR_NOT_IMPLEMENTED, w)"
proof -
  let ?v = "f (ToV8 (request job))"
  from assms(3)
  have n: "\<not> (IsObject ?v \<and> GetConstructorName ?v = ''RequestStringJob'')"
    "\<not> (IsObject ?v \<and> GetConstructorName ?v = ''RequestBufferJob'')"
    "\<not> (IsObject ?v \<and> GetConstructorName ?v = ''RequestFileJob'')"
    "\<not> (IsObject ?v \<and> GetConstructorName ?v = ''RequestErrorJob'')"
    "\<not> (IsObject ?v \<and> GetConstructorName ?v = ''RequestHttpJob'')"
    by (auto simp: tagged_job_object_def job_kind_names_def)
  show ?thesis
    unfolding GetJobTypeInUI_def GetProtocolHandler_def Let_def
    by (simp only: assms(1,2) n option.case prod.case js_protocol_handler.case if_False)
       (simp split: if_splits)
qed

text \<open>
  Claim C10. When the handler stored for the scheme of the request answers with a plain
  string, which is not an object and so not one of the tagged job kinds, the adapter job
  posts \<open>CreateStringJobAndStart\<close> with \<open>text/plain\<close>, \<open>UTF-8\<close> and that string.
\<close>

theorem plain_string_decision:
  assumes "protocol_handlers w (url_scheme (request job)) = Some (JsFunction f)"
    and "f (ToV8 (request job)) = V8String s"
  shows "GetJobTypeInUI job w = Inr (CreateStringJobAndStart ''text/plain'' ''UTF-8'' s, w)
       \<and> \<not> IsObject (f (ToV8 (request job)))
       \<and> \<not> tagged_job_object (f (ToV8 (request job)))"
  using assms
  by (simp add: GetJobTypeInUI_def GetProtocolHandler_def tagged_job_object_def Let_def)

theorem plain_string_decision_witness:
  "protocol_handlers world_app (url_scheme (request (MaybeCreateJob None app_request))) =
     Some (JsFunction (\<lambda>req. V8String ''hello''))
   \<and> (\<lambda>req. V8String ''hello'') (ToV8 (request (MaybeCreateJob None app_request))) =
       V8String ''hello''
   \<and> GetJobTypeInUI (MaybeCreateJob None app_request) world_app =
       Inr (CreateStringJobAndStart ''text/plain'' ''UTF-8'' ''hello'', world_app)"
proof -
  have a: "protocol_handlers world_app (url_scheme (request (MaybeCreateJob None app_request))) =
     Some (JsFunction (\<lambda>req. V8String ''hello''))"
    by (simp add: world_app_def MaybeCreateJob_def app_request_def hello_handler_def)
  from plain_string_decision [OF a, of "''hello''"] a show ?thesis by simp
qed

text \<open>
  Claim C4, as the code has it. For a scheme in registered mode whose handler is a
  JavaScript function, a decision that is neither a plain string nor an object tagged with
  one of the five job kinds makes the adapter job post \<open>CreateErrorJobAndStart\<close> with
  \<open>ERR_NOT_IMPLEMENTED\<close>.
\<close>

theorem unrecognised_decision_registered:
  assumes "entry_mode w (url_scheme req) = Some Registered"
    and "protocol_handlers w (url_scheme req) = Some (JsFunction f)"
    and "\<not> IsString (f (ToV8 req))"
    and "\<not> tagged_job_object (f (ToV8 req))"
  shows "\<exists>a. factory_GetProtocolHandler (job_factory w) (url_scheme req) = Some a
           \<and> handler_MaybeCreateJob (heap w) a req = Inr (AdapterJob (MaybeCreateJob None req))
           \<and> GetJobTypeInUI (MaybeCreateJob None req) w =
               Inr (CreateErrorJobAndStart ERR_NOT_IMPLEMENTED, w)"
proof -
  from assms(1) obtain a where a: "factory_GetProtocolHandler (job_factory w) (url_scheme req) = Some a"
    and o: "map_of (heap w) a = Some (CustomProtocolHandler None)"
    by (auto simp: entry_mode_def split: if_splits option.splits protocol_handler.splits)
  have j: "request (MaybeCreateJob None req) = req"
    "default_protocol_handler (MaybeCreateJob None req) = None"
    by (simp_all add: MaybeCreateJob_def)
  from assms(2-4) have "GetJobTypeInUI (MaybeCreateJob None req) w =
               Inr (CreateErrorJobAndStart ERR_NOT_IMPLEMENTED, w)"
    by (simp add: GetJobTypeInUI_unrecognised j)
  with a o show ?thesis by (simp add: handler_MaybeCreateJob_def)
qed

theorem unrecognised_decision_registered_witness:
  "entry_mode (world_app\<lparr>protocol_handlers := [''app'' \<mapsto> undecided_handler]\<rparr>)
     (url_scheme app_request) = Some Registered
   \<and> protocol_handlers (world_app\<lparr>protocol_handlers := [''app'' \<mapsto> undecided_handler]\<rparr>)
       (url_scheme app_request) = Some (JsFunction (\<lambda>req. V8Object ''Object'' []))
   \<and> \<not> IsString ((\<lambda>req. V8Object ''Object'' []) (ToV8 app_request))
   \<and> \<not> tagged_job_object ((\<lambda>req. V8Object ''Object'' []) (ToV8 app_request))
   \<and> (\<exists>a. factory_GetProtocolHandler
              (job_factory (world_app\<lparr>protocol_handlers := [''app'' \<mapsto> undecided_handler]\<rparr>))
              (url_scheme app_request) = Some a
         \<and> handler_MaybeCreateJob
             (heap (world_app\<lparr>protocol_handlers := [''app'' \<mapsto> undecided_handler]\<rparr>)) a app_request =
             Inr (AdapterJob (MaybeCreateJob None app_request))
         \<and> GetJobTypeInUI (MaybeCreateJob None app_request)
             (world_app\<lparr>protocol_handlers := [''app'' \<mapsto> undecided_handler]\<rparr>) =
             Inr (CreateErrorJobAndStart ERR_NOT_IMPLEMENTED,
                  world_app\<lparr>protocol_handlers := [''app'' \<mapsto> undecided_handler]\<rparr>))"
proof -
  let ?w = "world_app\<lparr>protocol_handlers := [''app'' \<mapsto> undecided_handler]\<rparr>"
  have a: "entry_mode ?w (url_scheme app_request) = Some Registered"
    by (simp add: entry_mode_def world_app_def app_request_def factory_defs)
  have b: "protocol_handlers ?w (url_scheme app_request) =
             Some (JsFunction (\<lambda>req. V8Object ''Object'' []))"
    by (simp add: app_request_def undecided_handler_def)
  have c: "\<not> IsString ((\<lambda>req. V8Object ''Object'' []) (ToV8 app_request))" by simp
  have d: "\<not> tagged_job_object ((\<lambda>req. V8Object ''Object'' []) (ToV8 app_request))"
    by (simp add: tagged_job_object_def job_kind_names_def)
  from unrecognised_decision_registered [OF a b c d] a b c d show ?thesis by blast
qed

text \<open>
  A plain string is not a tagged object either, and for it the adapter job posts a string
  job, not the error job.
\<close>

theorem plain_string_counterexample:
  "entry_mode world_app (url_scheme app_request) = Some Registered
   \<and> protocol_handlers world_app (url_scheme app_request) = Some hello_handler
   \<and> \<not> tagged_job_object (V8String ''hello'')
   \<and> GetJobTypeInUI (MaybeCreateJob None app_request) world_app =
       Inr (CreateStringJobAndStart ''text/plain'' ''UTF-8'' ''hello'', world_app)
   \<and> GetJobTypeInUI (MaybeCreateJob None app_request) world_app \<noteq>
       Inr (CreateErrorJobAndStart ERR_NOT_IMPLEMENTED, world_app)"
proof -
  have a: "entry_mode world_app (url_scheme app_request) = Some Registered"
    by (simp add: entry_mode_def world_app_def app_request_def factory_defs)
  have b: "protocol_handlers world_app (url_scheme app_request) = Some hello_handler"
    by (simp add: world_app_def app_request_def)
  have c: "\<not> tagged_job_object (V8String ''hello'')"
    by (simp add: tagged_job_object_def)
  have d: "GetJobTypeInUI (MaybeCreateJob None app_request) world_app =
       Inr (CreateStringJobAndStart ''text/plain'' ''UTF-8'' ''hello'', world_app)"
    using b
    by (simp add: GetJobTypeInUI_def GetProtocolHandler_def MaybeCreateJob_def Let_def
        hello_handler_def)
  from a b c d show ?thesis by simp
qed

text \<open>
  Claim C7. Let the handler of the scheme answer with a decision that is neither a plain
  string nor a tagged job object, and let the factory hold a \<open>CustomProtocolHandler\<close> for
  the scheme. The job the factory makes for a request carries the wrapped handler as its
  default handler. If there is one (the scheme is intercepted), \<open>GetJobTypeInUI\<close> posts
  \<open>CreateJobFromProtocolHandlerAndStart\<close>, and starting that yields exactly the job the
  wrapped handler makes for the request. If there is none, it posts the error job with
  \<open>ERR_NOT_IMPLEMENTED\<close>.
\<close>

theorem fallback_delegates:
  assumes "protocol_handlers w (url_scheme req) = Some (JsFunction f)"
    and "\<not> IsString (f (ToV8 req))"
    and "\<not> tagged_job_object (f (ToV8 req))"
    and "factory_GetProtocolHandler (job_factory w) (url_scheme req) = Some a"
    and "map_of (heap w) a = Some (CustomProtocolHandler wrapped)"
  shows "factory_MaybeCreateJob (job_factory w) (heap w) req =
           Inr (Some (AdapterJob (MaybeCreateJob wrapped req)))
       \<and> default_protocol_handler (MaybeCreateJob wrapped req) = wrapped
       \<and> (case wrapped of
             Some original \<Rightarrow>
               entry_mode w (url_scheme req) = Some Intercepted
             \<and> GetJobTypeInUI (MaybeCreateJob wrapped req) w =
                 Inr (CreateJobFromProtocolHandlerAndStart, w)
             \<and> start_job CreateJobFromProtocolHandlerAndStart (MaybeCreateJob wrapped req) (heap w) =
                 handler_MaybeCreateJob (heap w) original req
           | None \<Rightarrow>
               entry_mode w (url_scheme req) = Some Registered
             \<and> GetJobTypeInUI (MaybeCreateJob wrapped req) w =
                 Inr (CreateErrorJobAndStart ERR_NOT_IMPLEMENTED, w)
             \<and> start_job (CreateErrorJobAndStart ERR_NOT_IMPLEMENTED)
                 (MaybeCreateJob wrapped req) (heap w) = Inr (ErrorJob ERR_NOT_IMPLEMENTED))"
proof -
  have j: "request (MaybeCreateJob wrapped req) = req"
    "default_protocol_handler (MaybeCreateJob wrapped req) = wrapped"
    by (simp_all add: MaybeCreateJob_def)
  from assms(4,5)
  have made: "factory_MaybeCreateJob (job_factory w) (heap w) req =
           Inr (Some (AdapterJob (MaybeCreateJob wrapped req)))"
    by (simp add: factory_MaybeCreateJob_def handler_MaybeCreateJob_def)
  from assms(1-3)
  have decided: "GetJobTypeInUI (MaybeCreateJob wrapped req) w =
           Inr (if wrapped \<noteq> None then CreateJobFromProtocolHandlerAndStart
                else CreateErrorJobAndStart ERR_NOT_IMPLEMENTED, w)"
    by (simp add: GetJobTypeInUI_unrecognised j)
  from assms(1,4,5)
  have mode: "entry_mode w (url_scheme req) =
                Some (if wrapped = None then Registered else Intercepted)"
    by (cases wrapped) (simp_all add: entry_mode_def)
  from made decided mode j show ?thesis
    by (cases wrapped) simp_all
qed

theorem fallback_delegates_witness:
  "protocol_handlers (world_http\<lparr>protocol_handlers := [''http'' \<mapsto> undecided_handler]\<rparr>)
     (url_scheme http_request) = Some (JsFunction (\<lambda>req. V8Object ''Object'' []))
   \<and> \<not> IsString ((\<lambda>req. V8Object ''Object'' []) (ToV8 http_request))
   \<and> \<not> tagged_job_object ((\<lambda>req. V8Object ''Object'' []) (ToV8 http_request))
   \<and> factory_GetProtocolHandler
       (job_factory (world_http\<lparr>protocol_handlers := [''http'' \<mapsto> undecided_handler]\<rparr>))
       (url_scheme http_request) = Some 1
   \<and> map_of (heap (world_http\<lparr>protocol_handlers := [''http'' \<mapsto> undecided_handler]\<rparr>)) 1 =
       Some (CustomProtocolHandler (Some 0))
   \<and> GetJobTypeInUI (MaybeCreateJob (Some 0) http_request)
       (world_http\<lparr>protocol_handlers := [''http'' \<mapsto> undecided_handler]\<rparr>) =
       Inr (CreateJobFromProtocolHandlerAndStart,
            world_http\<lparr>protocol_handlers := [''http'' \<mapsto> undecided_handler]\<rparr>)
   \<and> start_job CreateJobFromProtocolHandlerAndStart (MaybeCreateJob (Some 0) http_request)
       (heap (world_http\<lparr>protocol_handlers := [''http'' \<mapsto> undecided_handler]\<rparr>)) =
       Inr (DefaultJob 0 http_request)
   \<and> factory_MaybeCreateJob (job_factory world0) (heap world0) http_request =
       Inr (Some (DefaultJob 0 http_request))"
proof -
  let ?w = "world_http\<lparr>protocol_handlers := [''http'' \<mapsto> undecided_handler]\<rparr>"
  have a: "protocol_handlers ?w (url_scheme http_request) =
             Some (JsFunction (\<lambda>req. V8Object ''Object'' []))"
    by (simp add: http_request_def undecided_handler_def)
  have b: "\<not> IsString ((\<lambda>req. V8Object ''Object'' []) (ToV8 http_request))" by simp
  have c: "\<not> tagged_job_object ((\<lambda>req. V8Object ''Object'' []) (ToV8 http_request))"
    by (simp add: tagged_job_object_def job_kind_names_def)
  have d: "factory_GetProtocolHandler (job_factory ?w) (url_scheme http_request) = Some 1"
    by (simp add: world_http_def http_request_def factory_defs)
  have e: "map_of (heap ?w) 1 = Some (CustomProtocolHandler (Some 0))"
    by (simp add: world_http_def)
  have orig: "handler_MaybeCreateJob (heap ?w) 0 http_request = Inr (DefaultJob 0 http_request)"
    by (simp add: handler_MaybeCreateJob_def world_http_def)
  have before: "factory_MaybeCreateJob (job_factory world0) (heap world0) http_request =
       Inr (Some (DefaultJob 0 http_request))"
    by (simp add: factory_MaybeCreateJob_def handler_MaybeCreateJob_def world0_def
        http_request_def factory_defs)
  from fallback_delegates [OF a b c d e] orig
  have "GetJobTypeInUI (MaybeCreateJob (Some 0) http_request) ?w =
          Inr (CreateJobFromProtocolHandlerAndStart, ?w)
        \<and> start_job CreateJobFromProtocolHandlerAndStart (MaybeCreateJob (Some 0) http_request)
            (heap ?w) = Inr (DefaultJob 0 http_request)"
    by (simp add: MaybeCreateJob_def)
  with a b c d e before show ?thesis by blast
qed

subsection \<open>Replies\<close>





end
